theory Spec2Isabelle
  imports Main
begin

unbundle bit_operations_syntax

text \<open>
  A shallow embedding of the network monitor of libcctools (\<^verbatim>\<open>network.c\<close>,
  \<^verbatim>\<open>network.h\<close>). Every C function is a function on the state of a run: the fields of
  the monitor and the events so far (mutex operations, field accesses, calls into the
  operating system). What the operating system answers is a parameter, the record
  \<open>env\<close>; the constants of the system headers are a parameter too, the record
  \<open>platform\<close>. The definitions follow the source line by line; the statements about
  them come after all definitions.
\<close>

section \<open>Data model of network.c and network.h\<close>

text \<open>
  The C \<^verbatim>\<open>int\<close> fields are modelled as \<open>int\<close>: the code only compares them with 0,
  divides \<^verbatim>\<open>timeout_ms\<close> by 1000 and shifts the constant 100000 by 0, 1 or 2, so no
  operation of the module can overflow. A \<^verbatim>\<open>const char*\<close> argument is a
  \<open>string option\<close> (\<open>None\<close> is the NULL pointer); a \<^verbatim>\<open>char\<close> buffer holds a
  \<open>string\<close>, the bytes before its terminating NUL. The fixed-size array
  \<^verbatim>\<open>wan_servers[MAX_WAN_SERVERS]\<close> is a function from the index to the element, read
  and written only below \<open>MAX_WAN_SERVERS\<close>.
\<close>

type_synonym errno = int

definition MAX_WAN_SERVERS :: nat where
  "MAX_WAN_SERVERS = 4"

record WanServer =
  host :: string
  port :: int

text \<open>The public configuration struct of network.h.\<close>

record NetworkConfig =
  cfg_timeout_ms :: int
  cfg_check_interval_sec :: int
  cfg_proxy_url :: "string option"
  cfg_wan_test_host :: "string option"
  cfg_wan_test_port :: int
  cfg_lan_interface :: "string option"

text \<open>
  The private struct. The thread handle and the mutex object carry no data of their own;
  taking and releasing the mutex is recorded as an event of the run (below).
\<close>

record NetworkMonitor =
  timeout_ms :: int
  check_interval_sec :: int
  proxy_url :: string
  wan_servers :: "nat \<Rightarrow> WanServer"
  num_wan_servers :: int
  lan_interface :: string
  wan_up :: bool
  lan_up :: bool
  last_check_time :: int
  last_error :: int
  running :: bool

text \<open>
  Constants of the system headers the module includes (\<^verbatim>\<open>net/if.h\<close>,
  \<^verbatim>\<open>linux/route.h\<close>). They are not part of the repository, so they are parameters.
\<close>

record platform =
  IF_NAMESIZE :: nat
  RTF_UP :: nat
  RTF_GATEWAY :: nat
  IFF_UP :: int
  IFF_RUNNING :: int

subsection \<open>Events of a run\<close>

datatype field =
  F_timeout_ms | F_check_interval_sec | F_proxy_url | F_wan_servers | F_num_wan_servers
  | F_lan_interface | F_wan_up | F_lan_up | F_last_check_time | F_last_error | F_running

text \<open>
  One event per mutex operation, per access to a field of the monitor, and per call into
  the operating system or the C library. \<open>Connect i r\<close> is the connect call for server
  \<open>i\<close> in retry \<open>r\<close>; \<open>Usleep us\<close> and \<open>Sleep sec\<close> carry their argument.
\<close>

datatype event =
  Lock | Unlock
  | Rd field | Wr field
  | Socket | Setsockopt | InetPton nat | Connect nat nat | Close
  | Usleep int | Sleep int | Ioctl | Time
  | Fopen | Fgets | Sscanf | Fclose
  | Malloc | Free | MutexInit | MutexDestroy | ThreadCreate | ThreadDetach

record exec =
  mon :: NetworkMonitor
  trace :: "event list"

definition emit :: "event \<Rightarrow> exec \<Rightarrow> exec" where
  "emit e s = s\<lparr>trace := trace s @ [e]\<rparr>"

definition rd :: "field \<Rightarrow> exec \<Rightarrow> exec" where
  "rd f s = emit (Rd f) s"

definition wr :: "field \<Rightarrow> (NetworkMonitor \<Rightarrow> NetworkMonitor) \<Rightarrow> exec \<Rightarrow> exec" where
  "wr f upd s = emit (Wr f) (s\<lparr>mon := upd (mon s)\<rparr>)"

definition start :: "NetworkMonitor \<Rightarrow> exec" where
  "start m = \<lparr>mon = m, trace = []\<rparr>"

subsection \<open>The environment\<close>

text \<open>
  What the operating system and the C library answer. Every call gives its return value
  and the value \<^verbatim>\<open>errno\<close> holds when the code reads it afterwards. The calls of one WAN
  check are told apart by the server index and the retry number. \<open>sys_fopen_route\<close>
  is \<^verbatim>\<open>fopen("/proc/net/route", "r")\<close>: \<open>None\<close> for a NULL stream, otherwise the
  lines that the calls of \<^verbatim>\<open>fgets\<close> give one after the other. \<open>sys_sscanf_route\<close> is
  \<^verbatim>\<open>sscanf(line, "%s %lx %lx %lx", dummy, &dest, &gw, &flags)\<close>: the number of
  conversions and the four values. \<open>sys_malloc\<close> gives the contents of the fresh,
  uninitialised struct.
\<close>

record conn_req =
  sin_addr :: nat
  sin_port :: int
  tv_sec :: int
  tv_usec :: int

record env =
  sys_socket_wan :: "nat \<Rightarrow> int \<times> errno"
  sys_inet_pton :: "nat \<Rightarrow> string \<Rightarrow> int \<times> errno \<times> nat"
  sys_connect :: "nat \<Rightarrow> nat \<Rightarrow> conn_req \<Rightarrow> int \<times> errno"
  sys_socket_lan :: "int \<times> errno"
  sys_ioctl_flags :: "string \<Rightarrow> int \<times> errno \<times> int"
  sys_time :: int
  sys_fopen_route :: "string list option \<times> errno"
  sys_sscanf_route :: "string \<Rightarrow> int \<times> string \<times> nat \<times> nat \<times> nat"
  sys_malloc :: "NetworkMonitor option"
  sys_socket_new :: "int \<times> errno"
  sys_mutex_init :: int
  sys_pthread_create :: int

subsection \<open>C arithmetic and string helpers\<close>

text \<open>C division truncates towards zero; \<^verbatim>\<open>%\<close> is its remainder.\<close>

definition c_div :: "int \<Rightarrow> int \<Rightarrow> int" where
  "c_div a b = sgn a * sgn b * (\<bar>a\<bar> div \<bar>b\<bar>)"

definition c_mod :: "int \<Rightarrow> int \<Rightarrow> int" where
  "c_mod a b = a - b * c_div a b"

text \<open>\<^verbatim>\<open>htons\<close> takes a 16-bit argument: the port is reduced modulo \<open>2 ^ 16\<close>.\<close>

definition htons :: "int \<Rightarrow> int" where
  "htons p = p mod 65536"

text \<open>
  \<^verbatim>\<open>strncpy(dst, src, n - 1); dst[n - 1] = '\0';\<close> for a buffer \<^verbatim>\<open>dst\<close> of \<open>n\<close>
  bytes leaves in it the first \<open>n - 1\<close> characters of \<^verbatim>\<open>src\<close>. The two
  statements are two writes to the field that holds the buffer.
\<close>

definition strncpy_nul :: "nat \<Rightarrow> string \<Rightarrow> string" where
  "strncpy_nul n src = take (n - 1) src"

definition wr_str :: "field \<Rightarrow> (NetworkMonitor \<Rightarrow> NetworkMonitor) \<Rightarrow> exec \<Rightarrow> exec" where
  "wr_str f upd s = emit (Wr f) (wr f upd s)"

section \<open>check_wan\<close>

text \<open>
  The retry loop of lines 155-163. The result \<open>True\<close> is the \<^verbatim>\<open>return true\<close> of line
  159; \<open>False\<close> means that the loop ran out after three failed attempts.
\<close>

function check_wan_retry :: "env \<Rightarrow> nat \<Rightarrow> conn_req \<Rightarrow> nat \<Rightarrow> exec \<Rightarrow> bool \<times> exec" where
  "check_wan_retry E i req retry s =
     (if retry < 3 then
        (let (ret, err) = sys_connect E i retry req;
             s1 = emit (Connect i retry) s
         in if ret = 0 then
              (True, wr F_last_error (\<lambda>m. m\<lparr>last_error := 0\<rparr>) (emit Close s1))
            else
              check_wan_retry E i req (Suc retry)
                (emit (Usleep (push_bit retry 100000))
                   (wr F_last_error (\<lambda>m. m\<lparr>last_error := err\<rparr>) s1)))
      else (False, s))"
  by pat_completeness auto
termination
  by (relation "measure (\<lambda>(E, i, req, retry, s). 3 - retry)") auto

declare check_wan_retry.simps [simp del]

text \<open>The body of the outer loop for server \<open>i\<close> (lines 134-164).\<close>

definition check_wan_server :: "env \<Rightarrow> nat \<Rightarrow> exec \<Rightarrow> bool \<times> exec" where
  "check_wan_server E i s =
     (let (sock, err) = sys_socket_wan E i;
          s1 = emit Socket s
      in if sock < 0 then (False, wr F_last_error (\<lambda>m. m\<lparr>last_error := err\<rparr>) s1)
         else
           let srv = wan_servers (mon s1) i;
               s2 = rd F_timeout_ms (rd F_timeout_ms s1);
               sec = c_div (timeout_ms (mon s2)) 1000;
               usec = c_mod (timeout_ms (mon s2)) 1000 * 1000;
               s3 = emit Setsockopt (emit Setsockopt s2);
               s4 = rd F_wan_servers s3;
               prt = htons (port srv);
               (ok, perr, addr) = sys_inet_pton E i (host srv);
               s5 = emit (InetPton i) (rd F_wan_servers s4)
           in if ok \<le> 0 then
                (False, emit Close (wr F_last_error (\<lambda>m. m\<lparr>last_error := perr\<rparr>) s5))
              else
                (case check_wan_retry E i
                        \<lparr>sin_addr = addr, sin_port = prt, tv_sec = sec, tv_usec = usec\<rparr> 0 s5 of
                   (True, s6) \<Rightarrow> (True, s6)
                 | (False, s6) \<Rightarrow> (False, emit Close s6)))"

text \<open>
  The outer loop from index \<open>i\<close> on. \<open>None\<close> is an index beyond the array, which the C
  code does not define.
\<close>

function check_wan_from :: "env \<Rightarrow> nat \<Rightarrow> exec \<Rightarrow> (bool \<times> exec) option" where
  "check_wan_from E i s =
     (let s0 = rd F_num_wan_servers s
      in if int i < num_wan_servers (mon s0) then
           (if i < MAX_WAN_SERVERS then
              (case check_wan_server E i s0 of
                 (True, s') \<Rightarrow> Some (True, s')
               | (False, s') \<Rightarrow> check_wan_from E (Suc i) s')
            else None)
         else Some (False, s0))"
  by pat_completeness auto
termination
  by (relation "measure (\<lambda>(E, i, s). MAX_WAN_SERVERS - i)") auto

declare check_wan_from.simps [simp del]

definition check_wan :: "env \<Rightarrow> exec \<Rightarrow> (bool \<times> exec) option" where
  "check_wan E s = check_wan_from E 0 s"

section \<open>check_lan\<close>

definition check_lan :: "platform \<Rightarrow> env \<Rightarrow> exec \<Rightarrow> bool \<times> exec" where
  "check_lan P E s =
     (let (sock, err) = sys_socket_lan E;
          s1 = emit Socket s
      in if sock < 0 then (False, wr F_last_error (\<lambda>m. m\<lparr>last_error := err\<rparr>) s1)
         else
           let s2 = rd F_lan_interface s1;
               ifr_name = strncpy_nul (IF_NAMESIZE P) (lan_interface (mon s2));
               (ret, ierr, ifr_flags) = sys_ioctl_flags E ifr_name;
               s3 = emit Ioctl s2
           in if ret < 0 then
                (False, emit Close (wr F_last_error (\<lambda>m. m\<lparr>last_error := ierr\<rparr>) s3))
              else
                let s4 = emit Close s3;
                    up = (ifr_flags AND IFF_UP P \<noteq> 0 \<and> ifr_flags AND IFF_RUNNING P \<noteq> 0)
                in if up then (True, wr F_last_error (\<lambda>m. m\<lparr>last_error := 0\<rparr>) s4)
                   else (False, wr F_last_error (\<lambda>m. m\<lparr>last_error := last_error m\<rparr>)
                                  (rd F_last_error s4)))"

section \<open>detect_lan_interface\<close>

text \<open>
  The \<^verbatim>\<open>while (fgets ...)\<close> loop of lines 100-111 over the lines of the routing table.
  The second \<^verbatim>\<open>sscanf(line, "%s", iface)\<close> reads the first field of the same line again,
  the one the first call stored in \<^verbatim>\<open>dummy\<close>. A first field that does not fit its
  buffer (\<^verbatim>\<open>dummy[256]\<close>, \<^verbatim>\<open>iface[IF_NAMESIZE]\<close>) is written beyond it, which C does
  not define: \<open>Overflow\<close>.
\<close>

datatype scan = Overflow | NotFound | Found string

fun route_scan :: "platform \<Rightarrow> env \<Rightarrow> string list \<Rightarrow> exec \<Rightarrow> scan \<times> exec" where
  "route_scan P E [] s = (NotFound, emit Fgets s)"
| "route_scan P E (line # rest) s =
     (let (n, dummy, dest, gw, flags) = sys_sscanf_route E line;
          s1 = emit Sscanf (emit Fgets s)
      in if 1 \<le> n \<and> 256 \<le> length dummy then (Overflow, s1)
         else if n \<noteq> 4 then route_scan P E rest s1
         else if dest = 0 \<and> flags AND RTF_GATEWAY P \<noteq> 0 \<and> flags AND RTF_UP P \<noteq> 0 \<and> gw \<noteq> 0
         then (if IF_NAMESIZE P \<le> length dummy then (Overflow, emit Sscanf s1)
               else (Found dummy, emit Sscanf s1))
         else route_scan P E rest s1)"

text \<open>\<open>None\<close> is the undefined run (a buffer overflow in the scan).\<close>

definition detect_lan_interface :: "platform \<Rightarrow> env \<Rightarrow> exec \<Rightarrow> (bool \<times> exec) option" where
  "detect_lan_interface P E s =
     (let (fp, err) = sys_fopen_route E;
          s1 = emit Fopen s
      in case fp of
           None \<Rightarrow> Some (False, wr F_last_error (\<lambda>m. m\<lparr>last_error := err\<rparr>) s1)
         | Some lines \<Rightarrow>
             (case route_scan P E lines s1 of
                (Overflow, s2) \<Rightarrow> None
              | (Found iface, s2) \<Rightarrow>
                  Some (True,
                    wr F_last_error (\<lambda>m. m\<lparr>last_error := 0\<rparr>)
                      (wr_str F_lan_interface
                         (\<lambda>m. m\<lparr>lan_interface := strncpy_nul (IF_NAMESIZE P) iface\<rparr>)
                         (emit Fclose s2)))
              | (NotFound, s2) \<Rightarrow>
                  Some (False, wr F_last_error (\<lambda>m. m\<lparr>last_error := 0\<rparr>) (emit Fclose s2))))"

section \<open>The background thread\<close>

text \<open>
  One pass through the body of \<^verbatim>\<open>while (true)\<close> in \<^verbatim>\<open>monitor_thread_func\<close>. The
  result \<open>False\<close> is the \<^verbatim>\<open>break\<close> of line 213, \<open>True\<close> the end of the body.
\<close>

definition monitor_iteration :: "platform \<Rightarrow> env \<Rightarrow> exec \<Rightarrow> (bool \<times> exec) option" where
  "monitor_iteration P E s =
     (let s1 = rd F_running (emit Lock s)
      in if \<not> running (mon s1) then Some (False, emit Unlock s1)
         else
           let s2 = rd F_check_interval_sec s1;
               interval = check_interval_sec (mon s2);
               s3 = emit Unlock s2
           in case check_wan E s3 of
                None \<Rightarrow> None
              | Some (new_wan, s4) \<Rightarrow>
                  let (new_lan, s5) = check_lan P E s4;
                      s6 = emit Lock s5;
                      s7 = wr F_wan_up (\<lambda>m. m\<lparr>wan_up := new_wan\<rparr>) s6;
                      s8 = wr F_lan_up (\<lambda>m. m\<lparr>lan_up := new_lan\<rparr>) s7;
                      s9 = wr F_last_check_time (\<lambda>m. m\<lparr>last_check_time := sys_time E\<rparr>)
                             (emit Time s8);
                      s10 = emit Unlock s9
                  in Some (True, emit (Sleep interval) s10))"

text \<open>
  The loop itself, with one environment per pass: it may run forever, so the list of
  environments is its fuel.
\<close>

datatype thread_result = Exited exec | StillRunning exec | NoDefinedRun

fun monitor_thread_func :: "platform \<Rightarrow> env list \<Rightarrow> exec \<Rightarrow> thread_result" where
  "monitor_thread_func P [] s = StillRunning s"
| "monitor_thread_func P (E # Es) s =
     (case monitor_iteration P E s of
        None \<Rightarrow> NoDefinedRun
      | Some (False, s') \<Rightarrow> Exited s'
      | Some (True, s') \<Rightarrow> monitor_thread_func P Es s')"

section \<open>Constructor and destructor\<close>

definition wan_defaults :: "WanServer list" where
  "wan_defaults =
     [\<lparr>host = ''8.8.8.8'', port = 53\<rparr>,
      \<lparr>host = ''1.1.1.1'', port = 53\<rparr>,
      \<lparr>host = ''9.9.9.9'', port = 53\<rparr>,
      \<lparr>host = ''208.67.222.222'', port = 53\<rparr>]"

text \<open>
  The loop of lines 264-266. It runs right after \<^verbatim>\<open>num_wan_servers = 4\<close>, so its
  indices are those of \<open>wan_defaults\<close>.
\<close>

definition seed_wan_servers :: "exec \<Rightarrow> exec" where
  "seed_wan_servers s =
     rd F_num_wan_servers
       (fold (\<lambda>i s. wr F_wan_servers
                       (\<lambda>m. m\<lparr>wan_servers := (wan_servers m)(i := wan_defaults ! i)\<rparr>)
                       (rd F_num_wan_servers s))
          [0..<nat (num_wan_servers (mon s))] s)"

text \<open>Lines 250-272: the configuration, from the defaults or from \<^verbatim>\<open>initial_cfg\<close>.\<close>

definition init_config :: "NetworkConfig option \<Rightarrow> exec \<Rightarrow> exec" where
  "init_config initial_cfg s0 =
     (let s1 = wr F_timeout_ms
                 (\<lambda>m. m\<lparr>timeout_ms :=
                    (case initial_cfg of
                       Some c \<Rightarrow> if cfg_timeout_ms c > 0 then cfg_timeout_ms c else 1000
                     | None \<Rightarrow> 1000)\<rparr>) s0;
          s2 = wr F_check_interval_sec
                 (\<lambda>m. m\<lparr>check_interval_sec :=
                    (case initial_cfg of
                       Some c \<Rightarrow> if cfg_check_interval_sec c > 0
                                 then cfg_check_interval_sec c else 5
                     | None \<Rightarrow> 5)\<rparr>) s1;
          s3 = wr_str F_proxy_url
                 (\<lambda>m. m\<lparr>proxy_url := strncpy_nul 256
                    (case initial_cfg of
                       Some c \<Rightarrow> (case cfg_proxy_url c of Some p \<Rightarrow> p | None \<Rightarrow> [])
                     | None \<Rightarrow> [])\<rparr>) s2;
          s4 = wr F_num_wan_servers (\<lambda>m. m\<lparr>num_wan_servers := 4\<rparr>) s3;
          s5 = seed_wan_servers s4
      in case initial_cfg of
           None \<Rightarrow> s5
         | Some c \<Rightarrow>
             (case cfg_wan_test_host c of
                None \<Rightarrow> s5
              | Some h \<Rightarrow>
                  if cfg_wan_test_port c > 0 then
                    wr F_wan_servers
                      (\<lambda>m. m\<lparr>wan_servers := (wan_servers m)
                         (0 := (wan_servers m 0)\<lparr>port := cfg_wan_test_port c\<rparr>)\<rparr>)
                      (wr_str F_wan_servers
                         (\<lambda>m. m\<lparr>wan_servers := (wan_servers m)
                            (0 := (wan_servers m 0)\<lparr>host := strncpy_nul 256 h\<rparr>)\<rparr>)
                         s5)
                  else s5))"

text \<open>
  Lines 274-284: the interface of the configuration when it names one, otherwise the
  detected one, otherwise lo. \<open>None\<close> is the undefined run of the detection.
\<close>

definition init_lan_interface ::
  "platform \<Rightarrow> env \<Rightarrow> NetworkConfig option \<Rightarrow> exec \<Rightarrow> exec option" where
  "init_lan_interface P E initial_cfg s6 =
     (let explicit = (case initial_cfg of
                        None \<Rightarrow> None
                      | Some c \<Rightarrow>
                          (case cfg_lan_interface c of
                             None \<Rightarrow> None
                           | Some ifc \<Rightarrow> if ifc \<noteq> [] then Some ifc else None))
      in case explicit of
           Some ifc \<Rightarrow>
             Some (wr_str F_lan_interface
                     (\<lambda>m. m\<lparr>lan_interface := strncpy_nul (IF_NAMESIZE P) ifc\<rparr>) s6)
         | None \<Rightarrow>
             (case detect_lan_interface P E s6 of
                None \<Rightarrow> None
              | Some (True, s) \<Rightarrow> Some s
              | Some (False, s) \<Rightarrow>
                  Some (wr_str F_lan_interface
                          (\<lambda>m. m\<lparr>lan_interface := strncpy_nul (IF_NAMESIZE P) ''lo''\<rparr>) s)))"

text \<open>
  The constructor. \<open>Null\<close> is the NULL handle (after \<^verbatim>\<open>free\<close> where the struct was
  allocated), \<open>Handle\<close> the live monitor.
\<close>

datatype new_result = NoDefinedResult | Null | Handle exec

definition network_monitor_new :: "platform \<Rightarrow> env \<Rightarrow> NetworkConfig option \<Rightarrow> new_result" where
  "network_monitor_new P E initial_cfg =
     (case sys_malloc E of
        None \<Rightarrow> Null
      | Some raw \<Rightarrow>
          (case init_lan_interface P E initial_cfg
                  (init_config initial_cfg (emit Malloc (start raw))) of
             None \<Rightarrow> NoDefinedResult
           | Some s7 \<Rightarrow>
               let (sock, serr) = sys_socket_new E;
                   s8 = emit Socket s7
               in if sock < 0 then Null
                  else
                    let (ok, s9) = check_lan P E s8
                    in if \<not> ok then Null
                       else
                         let s10 = emit Close s9;
                             s11 = wr F_wan_up (\<lambda>m. m\<lparr>wan_up := False\<rparr>) s10;
                             s12 = wr F_lan_up (\<lambda>m. m\<lparr>lan_up := False\<rparr>) s11;
                             s13 = wr F_last_check_time (\<lambda>m. m\<lparr>last_check_time := 0\<rparr>) s12;
                             s14 = wr F_last_error (\<lambda>m. m\<lparr>last_error := 0\<rparr>) s13;
                             s15 = wr F_running (\<lambda>m. m\<lparr>running := True\<rparr>) s14;
                             s16 = emit MutexInit s15
                         in if sys_mutex_init E \<noteq> 0 then Null
                            else
                              let s17 = emit ThreadCreate s16
                              in if sys_pthread_create E \<noteq> 0 then Null
                                 else Handle (emit ThreadDetach s17)))"

text \<open>\<open>None\<close> is the NULL handle, for which the destructor returns at once.\<close>

definition network_monitor_destroy :: "exec option \<Rightarrow> exec option" where
  "network_monitor_destroy self =
     (case self of
        None \<Rightarrow> None
      | Some s \<Rightarrow>
          Some (emit Free (emit MutexDestroy (emit (Usleep 100000)
            (emit Unlock (wr F_running (\<lambda>m. m\<lparr>running := False\<rparr>) (emit Lock s)))))))"

section \<open>Getters and setters\<close>

definition get_wan_status :: "exec \<Rightarrow> bool \<times> exec" where
  "get_wan_status s = (let s1 = rd F_wan_up (emit Lock s) in (wan_up (mon s1), emit Unlock s1))"

definition get_lan_status :: "exec \<Rightarrow> bool \<times> exec" where
  "get_lan_status s = (let s1 = rd F_lan_up (emit Lock s) in (lan_up (mon s1), emit Unlock s1))"

definition get_last_check_time :: "exec \<Rightarrow> int \<times> exec" where
  "get_last_check_time s =
     (let s1 = rd F_last_check_time (emit Lock s) in (last_check_time (mon s1), emit Unlock s1))"

definition get_last_error :: "exec \<Rightarrow> int \<times> exec" where
  "get_last_error s =
     (let s1 = rd F_last_error (emit Lock s) in (last_error (mon s1), emit Unlock s1))"

definition set_timeout_ms :: "exec \<Rightarrow> int \<Rightarrow> exec" where
  "set_timeout_ms s ms =
     emit Unlock
       (wr F_timeout_ms (\<lambda>m. m\<lparr>timeout_ms := (if ms > 0 then ms else 1000)\<rparr>) (emit Lock s))"

definition set_check_interval_sec :: "exec \<Rightarrow> int \<Rightarrow> exec" where
  "set_check_interval_sec s sec =
     emit Unlock
       (wr F_check_interval_sec
          (\<lambda>m. m\<lparr>check_interval_sec := (if sec > 0 then sec else 5)\<rparr>) (emit Lock s))"

definition set_proxy :: "exec \<Rightarrow> string option \<Rightarrow> exec" where
  "set_proxy s proxy =
     emit Unlock
       (wr_str F_proxy_url
          (\<lambda>m. m\<lparr>proxy_url := strncpy_nul 256 (case proxy of Some p \<Rightarrow> p | None \<Rightarrow> [])\<rparr>)
          (emit Lock s))"

definition set_wan_test_host :: "exec \<Rightarrow> string option \<Rightarrow> exec" where
  "set_wan_test_host s h =
     emit Unlock
       (wr_str F_wan_servers
          (\<lambda>m. m\<lparr>wan_servers := (wan_servers m)
             (0 := (wan_servers m 0)
                \<lparr>host := strncpy_nul 256 (case h of Some x \<Rightarrow> x | None \<Rightarrow> ''8.8.8.8'')\<rparr>)\<rparr>)
          (emit Lock s))"

definition set_wan_test_port :: "exec \<Rightarrow> int \<Rightarrow> exec" where
  "set_wan_test_port s p =
     emit Unlock
       (wr F_wan_servers
          (\<lambda>m. m\<lparr>wan_servers := (wan_servers m)
             (0 := (wan_servers m 0)\<lparr>port := (if p > 0 then p else 53)\<rparr>)\<rparr>)
          (emit Lock s))"

definition set_lan_interface :: "platform \<Rightarrow> exec \<Rightarrow> string option \<Rightarrow> exec" where
  "set_lan_interface P s iface =
     emit Unlock
       (wr_str F_lan_interface
          (\<lambda>m. m\<lparr>lan_interface :=
             strncpy_nul (IF_NAMESIZE P) (case iface of Some x \<Rightarrow> x | None \<Rightarrow> ''eth0'')\<rparr>)
          (emit Lock s))"

section \<open>The debug string\<close>

text \<open>\<^verbatim>\<open>%d\<close> and \<^verbatim>\<open>%ld\<close> of \<^verbatim>\<open>snprintf\<close>: a decimal number, with a sign when negative.\<close>

function dec_digits :: "nat \<Rightarrow> string" where
  "dec_digits n =
     (if n < 10 then [''0123456789'' ! n]
      else dec_digits (n div 10) @ [''0123456789'' ! (n mod 10)])"
  by pat_completeness auto
termination
  by (relation "measure id") auto

declare dec_digits.simps [simp del]

definition printf_d :: "int \<Rightarrow> string" where
  "printf_d x = (if x < 0 then CHR ''-'' # dec_digits (nat (- x)) else dec_digits (nat x))"

text \<open>
  \<open>malloc_ok\<close> says whether \<^verbatim>\<open>malloc(768)\<close> gives a buffer; \<^verbatim>\<open>snprintf\<close> keeps at most 767
  characters.
\<close>

definition network_monitor_to_string :: "bool \<Rightarrow> exec \<Rightarrow> string option \<times> exec" where
  "network_monitor_to_string malloc_ok s =
     (let s1 = emit Malloc (emit Lock s)
      in if malloc_ok then
           let s2 = rd F_lan_interface (rd F_wan_servers (rd F_wan_servers (rd F_proxy_url
                      (rd F_timeout_ms (rd F_last_check_time (rd F_lan_up (rd F_wan_up s1)))))));
               m = mon s2;
               buf = ''NetworkMonitor: WAN='' @ printf_d (if wan_up m then 1 else 0)
                     @ '', LAN='' @ printf_d (if lan_up m then 1 else 0)
                     @ '', LastCheck='' @ printf_d (last_check_time m)
                     @ '', Timeout='' @ printf_d (timeout_ms m)
                     @ ''ms, Proxy='' @ proxy_url m
                     @ '', WANHost='' @ host (wan_servers m 0)
                     @ '':'' @ printf_d (port (wan_servers m 0))
                     @ '', LANIface='' @ lan_interface m
           in (Some (take 767 buf), emit Unlock s2)
         else (None, emit Unlock s1))"

section \<open>Notions used in the statements\<close>

subsection \<open>What a check is asked of the environment\<close>

text \<open>The flags query of \<open>check_lan\<close> for the interface a monitor names.\<close>

definition lan_query :: "platform \<Rightarrow> env \<Rightarrow> NetworkMonitor \<Rightarrow> int \<times> errno \<times> int" where
  "lan_query P E m = sys_ioctl_flags E (strncpy_nul (IF_NAMESIZE P) (lan_interface m))"

text \<open>
  The connect request \<open>check_wan\<close> builds for server \<open>i\<close>, whether attempt \<open>r\<close> to that
  server succeeds, whether the socket and the address of the server are there at all, and
  whether the server accepts one of the three attempts.
\<close>

definition wan_req :: "env \<Rightarrow> NetworkMonitor \<Rightarrow> nat \<Rightarrow> conn_req" where
  "wan_req E m i =
     \<lparr>sin_addr = snd (snd (sys_inet_pton E i (host (wan_servers m i)))),
      sin_port = htons (port (wan_servers m i)),
      tv_sec = c_div (timeout_ms m) 1000,
      tv_usec = c_mod (timeout_ms m) 1000 * 1000\<rparr>"

definition connect_ok :: "env \<Rightarrow> NetworkMonitor \<Rightarrow> nat \<Rightarrow> nat \<Rightarrow> bool" where
  "connect_ok E m i r = (fst (sys_connect E i r (wan_req E m i)) = 0)"

definition server_ready :: "env \<Rightarrow> NetworkMonitor \<Rightarrow> nat \<Rightarrow> bool" where
  "server_ready E m i =
     (0 \<le> fst (sys_socket_wan E i) \<and> 0 < fst (sys_inet_pton E i (host (wan_servers m i))))"

definition server_accepts :: "env \<Rightarrow> NetworkMonitor \<Rightarrow> nat \<Rightarrow> bool" where
  "server_accepts E m i =
     (server_ready E m i \<and> (connect_ok E m i 0 \<or> connect_ok E m i 1 \<or> connect_ok E m i 2))"

text \<open>
  The error the code records last for a server that does not accept: that of the socket,
  of the address conversion, or of the third connect.
\<close>

definition server_fail_code :: "env \<Rightarrow> NetworkMonitor \<Rightarrow> nat \<Rightarrow> int" where
  "server_fail_code E m i =
     (if fst (sys_socket_wan E i) < 0 then snd (sys_socket_wan E i)
      else if fst (sys_inet_pton E i (host (wan_servers m i))) \<le> 0
      then fst (snd (sys_inet_pton E i (host (wan_servers m i))))
      else snd (sys_connect E i 2 (wan_req E m i)))"

text \<open>The connect calls of a run, as pairs of server index and retry number.\<close>

fun connect_attempts :: "event list \<Rightarrow> (nat \<times> nat) list" where
  "connect_attempts [] = []"
| "connect_attempts (Connect i r # es) = (i, r) # connect_attempts es"
| "connect_attempts (e # es) = connect_attempts es"

text \<open>
  The connect calls as the description of the check gives them: the servers in list
  order, each tried up to three times and until it accepts, and no server after the
  first one that accepts.
\<close>

definition server_attempts :: "env \<Rightarrow> NetworkMonitor \<Rightarrow> nat \<Rightarrow> (nat \<times> nat) list" where
  "server_attempts E m i =
     (if \<not> server_ready E m i then []
      else if connect_ok E m i 0 then [(i, 0)]
      else if connect_ok E m i 1 then [(i, 0), (i, 1)]
      else [(i, 0), (i, 1), (i, 2)])"

fun wan_attempts :: "env \<Rightarrow> NetworkMonitor \<Rightarrow> nat \<Rightarrow> nat \<Rightarrow> (nat \<times> nat) list" where
  "wan_attempts E m i 0 = []"
| "wan_attempts E m i (Suc k) =
     server_attempts E m i @ (if server_accepts E m i then [] else wan_attempts E m (Suc i) k)"

subsection \<open>The routing table\<close>

text \<open>
  A scanned line qualifies when all four fields were converted, the destination is 0, the
  gateway and up flags are set and the gateway is not 0. \<open>first_default_route\<close> is the
  interface name of the first line that qualifies. \<open>fields_fit\<close>: every first field fits
  the buffers it is scanned into, as the interface names of the kernel do.
\<close>

definition route_qualifies :: "platform \<Rightarrow> int \<times> string \<times> nat \<times> nat \<times> nat \<Rightarrow> bool" where
  "route_qualifies P e =
     (case e of (n, name, dest, gw, flags) \<Rightarrow>
        n = 4 \<and> dest = 0 \<and> flags AND RTF_GATEWAY P \<noteq> 0 \<and> flags AND RTF_UP P \<noteq> 0 \<and> gw \<noteq> 0)"

definition first_default_route :: "platform \<Rightarrow> env \<Rightarrow> string list \<Rightarrow> string option" where
  "first_default_route P E lines =
     map_option (\<lambda>e. fst (snd e)) (find (route_qualifies P) (map (sys_sscanf_route E) lines))"

definition fields_fit :: "platform \<Rightarrow> env \<Rightarrow> string list \<Rightarrow> bool" where
  "fields_fit P E lines =
     list_all (\<lambda>e. length (fst (snd e)) < 256 \<and> length (fst (snd e)) < IF_NAMESIZE P)
       (map (sys_sscanf_route E) lines)"

subsection \<open>What an operation leaves alone\<close>

text \<open>The second monitor is the first one but for \<open>last_error\<close>.\<close>

definition only_last_error :: "NetworkMonitor \<Rightarrow> NetworkMonitor \<Rightarrow> bool" where
  "only_last_error m m' = (\<exists>e. m' = m\<lparr>last_error := e\<rparr>)"

subsection \<open>Invariants of a live monitor\<close>

definition config_valid :: "NetworkMonitor \<Rightarrow> bool" where
  "config_valid m = (0 < timeout_ms m \<and> 0 < check_interval_sec m)"

definition fixed_wan_defaults :: "NetworkMonitor \<Rightarrow> bool" where
  "fixed_wan_defaults m =
     (num_wan_servers m = 4
      \<and> wan_servers m 1 = \<lparr>host = ''1.1.1.1'', port = 53\<rparr>
      \<and> wan_servers m 2 = \<lparr>host = ''9.9.9.9'', port = 53\<rparr>
      \<and> wan_servers m 3 = \<lparr>host = ''208.67.222.222'', port = 53\<rparr>)"

definition monitor_inv :: "NetworkMonitor \<Rightarrow> bool" where
  "monitor_inv m = (config_valid m \<and> fixed_wan_defaults m)"

text \<open>
  The monitors a caller can hold: what the constructor returns, and what the operations of
  the interface and the steps of the background thread make of such a monitor. The
  destructor ends a monitor's life and is no step.
\<close>

inductive reachable :: "platform \<Rightarrow> NetworkMonitor \<Rightarrow> bool" for P :: platform where
  r_new: "network_monitor_new P E cfg = Handle s \<Longrightarrow> reachable P (mon s)"
| r_check_wan: "reachable P m \<Longrightarrow> check_wan E (start m) = Some (b, s) \<Longrightarrow> reachable P (mon s)"
| r_check_lan: "reachable P m \<Longrightarrow> reachable P (mon (snd (check_lan P E (start m))))"
| r_iteration:
    "reachable P m \<Longrightarrow> monitor_iteration P E (start m) = Some (b, s) \<Longrightarrow> reachable P (mon s)"
| r_get_wan_status: "reachable P m \<Longrightarrow> reachable P (mon (snd (get_wan_status (start m))))"
| r_get_lan_status: "reachable P m \<Longrightarrow> reachable P (mon (snd (get_lan_status (start m))))"
| r_get_last_check_time:
    "reachable P m \<Longrightarrow> reachable P (mon (snd (get_last_check_time (start m))))"
| r_get_last_error: "reachable P m \<Longrightarrow> reachable P (mon (snd (get_last_error (start m))))"
| r_to_string:
    "reachable P m \<Longrightarrow> reachable P (mon (snd (network_monitor_to_string ok (start m))))"
| r_set_timeout_ms: "reachable P m \<Longrightarrow> reachable P (mon (set_timeout_ms (start m) ms))"
| r_set_check_interval_sec:
    "reachable P m \<Longrightarrow> reachable P (mon (set_check_interval_sec (start m) sec))"
| r_set_proxy: "reachable P m \<Longrightarrow> reachable P (mon (set_proxy (start m) proxy))"
| r_set_wan_test_host: "reachable P m \<Longrightarrow> reachable P (mon (set_wan_test_host (start m) h))"
| r_set_wan_test_port: "reachable P m \<Longrightarrow> reachable P (mon (set_wan_test_port (start m) p))"
| r_set_lan_interface:
    "reachable P m \<Longrightarrow> reachable P (mon (set_lan_interface P (start m) iface))"

subsection \<open>The mutex in a run\<close>

text \<open>
  \<open>accesses_locked held es\<close>: in the events \<open>es\<close>, started with the mutex held or not,
  every read and write of a field happens while the mutex is held. \<open>io_unlocked held es\<close>:
  no socket creation, connect, ioctl or sleep happens while it is held.
\<close>

fun accesses_locked :: "bool \<Rightarrow> event list \<Rightarrow> bool" where
  "accesses_locked held [] = True"
| "accesses_locked held (Lock # es) = accesses_locked True es"
| "accesses_locked held (Unlock # es) = accesses_locked False es"
| "accesses_locked held (Rd f # es) = (held \<and> accesses_locked held es)"
| "accesses_locked held (Wr f # es) = (held \<and> accesses_locked held es)"
| "accesses_locked held (e # es) = accesses_locked held es"

fun network_io :: "event \<Rightarrow> bool" where
  "network_io Socket = True"
| "network_io (Connect i r) = True"
| "network_io Ioctl = True"
| "network_io (Usleep us) = True"
| "network_io (Sleep sec) = True"
| "network_io e = False"

fun io_unlocked :: "bool \<Rightarrow> event list \<Rightarrow> bool" where
  "io_unlocked held [] = True"
| "io_unlocked held (Lock # es) = io_unlocked True es"
| "io_unlocked held (Unlock # es) = io_unlocked False es"
| "io_unlocked held (e # es) = (\<not> (held \<and> network_io e) \<and> io_unlocked held es)"

text \<open>Events among which the mutex is neither taken nor released.\<close>

definition lock_free :: "event list \<Rightarrow> bool" where
  "lock_free es = (Lock \<notin> set es \<and> Unlock \<notin> set es)"

subsection \<open>A pass of the thread and the destructor in steps\<close>

text \<open>
  The two halves of one pass of the loop of \<^verbatim>\<open>monitor_thread_func\<close>, cut at the unlock of
  line 216: the test of \<open>running\<close> with the copy of the interval (lines 210-216; \<open>None\<close>
  is the \<^verbatim>\<open>break\<close>), and the checks with the publication of their results (lines
  218-229). Between the two the thread holds no mutex, so another thread can take it.
\<close>

definition monitor_pass_begin :: "exec \<Rightarrow> int option \<times> exec" where
  "monitor_pass_begin s =
     (let s1 = rd F_running (emit Lock s)
      in if \<not> running (mon s1) then (None, emit Unlock s1)
         else
           let s2 = rd F_check_interval_sec s1;
               interval = check_interval_sec (mon s2)
           in (Some interval, emit Unlock s2))"

definition monitor_pass_rest :: "platform \<Rightarrow> env \<Rightarrow> int \<Rightarrow> exec \<Rightarrow> exec option" where
  "monitor_pass_rest P E interval s3 =
     (case check_wan E s3 of
        None \<Rightarrow> None
      | Some (new_wan, s4) \<Rightarrow>
          let (new_lan, s5) = check_lan P E s4;
              s6 = emit Lock s5;
              s7 = wr F_wan_up (\<lambda>m. m\<lparr>wan_up := new_wan\<rparr>) s6;
              s8 = wr F_lan_up (\<lambda>m. m\<lparr>lan_up := new_lan\<rparr>) s7;
              s9 = wr F_last_check_time (\<lambda>m. m\<lparr>last_check_time := sys_time E\<rparr>)
                     (emit Time s8);
              s10 = emit Unlock s9
          in Some (emit (Sleep interval) s10))"

text \<open>
  The critical section of \<^verbatim>\<open>network_monitor_destroy\<close> (lines 327-329); the grace period,
  \<^verbatim>\<open>usleep(100000)\<close>, and the release of the struct follow it.
\<close>

definition destroy_request :: "exec \<Rightarrow> exec" where
  "destroy_request s = emit Unlock (wr F_running (\<lambda>m. m\<lparr>running := False\<rparr>) (emit Lock s))"

text \<open>The microseconds a thread has asked \<^verbatim>\<open>usleep\<close> for in its events.\<close>

fun usleep_total :: "event list \<Rightarrow> int" where
  "usleep_total [] = 0"
| "usleep_total (Usleep us # es) = us + usleep_total es"
| "usleep_total (e # es) = usleep_total es"

subsection \<open>Example values for the closed instances\<close>

text \<open>A platform with the values of the Linux headers.\<close>

definition linux_platform :: platform where
  "linux_platform =
     \<lparr>IF_NAMESIZE = 16, RTF_UP = 1, RTF_GATEWAY = 2, IFF_UP = 1, IFF_RUNNING = 64\<rparr>"

definition example_monitor :: NetworkMonitor where
  "example_monitor =
     \<lparr>timeout_ms = 500, check_interval_sec = 2, proxy_url = ''http://example-proxy:8080'',
      wan_servers = (\<lambda>i. if i < 4 then wan_defaults ! i else \<lparr>host = [], port = 0\<rparr>),
      num_wan_servers = 4, lan_interface = ''wlan0'',
      wan_up = False, lan_up = False, last_check_time = 0, last_error = 113, running = True\<rparr>"

definition example_routes :: "string list" where
  "example_routes =
     [''Iface Destination Gateway Flags'',
      ''eth0 0000A8C0 00000000 0001'',
      ''eth0 00000000 0101A8C0 0003'',
      ''wlan0 00000000 0101A8C0 0003'']"

text \<open>
  An environment in which every call succeeds but \<^verbatim>\<open>connect\<close>, which succeeds where
  \<open>up\<close> says so and otherwise fails with error 111; the interface flags are \<open>flags\<close>.
  The routing table \<open>example_routes\<close> has a header, a route of the local network and two
  default routes.
\<close>

definition example_env :: "(nat \<Rightarrow> nat \<Rightarrow> bool) \<Rightarrow> int \<Rightarrow> env" where
  "example_env up flags =
     \<lparr>sys_socket_wan = (\<lambda>i. (3, 0)),
      sys_inet_pton = (\<lambda>i h. (1, 0, 0)),
      sys_connect = (\<lambda>i r req. if up i r then (0, 0) else (- 1, 111)),
      sys_socket_lan = (4, 0),
      sys_ioctl_flags = (\<lambda>name. (0, 0, flags)),
      sys_time = 1700000000,
      sys_fopen_route = (Some example_routes, 0),
      sys_sscanf_route =
        (\<lambda>l. if l = ''eth0 0000A8C0 00000000 0001'' then (4, ''eth0'', 43200, 0, 1)
             else if l = ''eth0 00000000 0101A8C0 0003'' then (4, ''eth0'', 0, 16885952, 3)
             else if l = ''wlan0 00000000 0101A8C0 0003'' then (4, ''wlan0'', 0, 16885952, 3)
             else (3, ''Iface'', 13, 14, 0)),
      sys_malloc = Some example_monitor,
      sys_socket_new = (5, 0),
      sys_mutex_init = 0,
      sys_pthread_create = 0\<rparr>"

section \<open>Basic facts about the events\<close>

lemma mon_emit [simp]: "mon (emit e s) = mon s"
  by (simp add: emit_def)

lemma trace_emit [simp]: "trace (emit e s) = trace s @ [e]"
  by (simp add: emit_def)

lemma mon_rd [simp]: "mon (rd f s) = mon s"
  by (simp add: rd_def)

lemma trace_rd [simp]: "trace (rd f s) = trace s @ [Rd f]"
  by (simp add: rd_def)

lemma mon_wr [simp]: "mon (wr f u s) = u (mon s)"
  by (simp add: wr_def)

lemma trace_wr [simp]: "trace (wr f u s) = trace s @ [Wr f]"
  by (simp add: wr_def)

lemma mon_wr_str [simp]: "mon (wr_str f u s) = u (mon s)"
  by (simp add: wr_str_def)

lemma trace_wr_str [simp]: "trace (wr_str f u s) = trace s @ [Wr f, Wr f]"
  by (simp add: wr_str_def)

lemma mon_start [simp]: "mon (start m) = m"
  by (simp add: start_def)

lemma trace_start [simp]: "trace (start m) = []"
  by (simp add: start_def)

section \<open>What the checks leave alone\<close>

lemma only_last_error_refl [simp]: "only_last_error m m"
  unfolding only_last_error_def by (rule exI [of _ "last_error m"]) simp

lemma only_last_error_upd [simp]: "only_last_error m (m\<lparr>last_error := e\<rparr>)"
  by (auto simp: only_last_error_def)

lemma only_last_error_step:
  "only_last_error (m\<lparr>last_error := e\<rparr>) m' \<Longrightarrow> only_last_error m m'"
  by (auto simp: only_last_error_def)

lemma only_last_error_trans:
  "only_last_error m m' \<Longrightarrow> only_last_error m' m'' \<Longrightarrow> only_last_error m m''"
  by (auto simp: only_last_error_def)

lemma only_last_error_fields:
  assumes "only_last_error m m'"
  shows "timeout_ms m' = timeout_ms m" "check_interval_sec m' = check_interval_sec m"
    "proxy_url m' = proxy_url m" "wan_servers m' = wan_servers m"
    "num_wan_servers m' = num_wan_servers m" "lan_interface m' = lan_interface m"
    "wan_up m' = wan_up m" "lan_up m' = lan_up m" "last_check_time m' = last_check_time m"
    "running m' = running m"
  using assms by (auto simp: only_last_error_def)

lemma check_wan_retry_frame:
  "only_last_error (mon s) (mon (snd (check_wan_retry E i req retry s)))"
proof (induction E i req retry s rule: check_wan_retry.induct)
  case (1 E i req retry s)
  show ?case
  proof (cases "retry < 3")
    case False
    then show ?thesis by (simp add: check_wan_retry.simps)
  next
    case True
    obtain ret err where c: "sys_connect E i retry req = (ret, err)" by (cases "sys_connect E i retry req")
    show ?thesis
    proof (cases "ret = 0")
      case True
      with \<open>retry < 3\<close> c show ?thesis
        by (subst check_wan_retry.simps) simp
    next
      case False
      from "1.IH" [OF \<open>retry < 3\<close> refl c [symmetric] refl False]
      have "only_last_error (mon s) (mon (snd (check_wan_retry E i req (Suc retry)
               (emit (Usleep (push_bit retry 100000))
                  (wr F_last_error (\<lambda>m. m\<lparr>last_error := err\<rparr>) (emit (Connect i retry) s))))))"
        by (auto intro: only_last_error_step)
      with \<open>retry < 3\<close> c False show ?thesis
        by (subst check_wan_retry.simps) simp
    qed
  qed
qed

lemma check_wan_server_frame:
  "only_last_error (mon s) (mon (snd (check_wan_server E i s)))"
proof -
  have r: "only_last_error (mon s) (mon (snd (check_wan_retry E i req 0 s')))" if "mon s' = mon s" for req s'
    using check_wan_retry_frame [of s' E i req 0] that by simp
  show ?thesis
    unfolding check_wan_server_def Let_def
    by (auto split: prod.splits bool.splits simp: r dest!: arg_cong [where f = snd]) 
qed


lemma check_wan_from_unfold:
  "check_wan_from E i s =
     (if int i < num_wan_servers (mon s) then
        (if i < MAX_WAN_SERVERS then
           (if fst (check_wan_server E i (rd F_num_wan_servers s))
            then Some (True, snd (check_wan_server E i (rd F_num_wan_servers s)))
            else check_wan_from E (Suc i) (snd (check_wan_server E i (rd F_num_wan_servers s))))
         else None)
      else Some (False, rd F_num_wan_servers s))"
  by (subst check_wan_from.simps) (auto simp: Let_def split: prod.splits bool.splits)

lemma check_wan_from_frame:
  "check_wan_from E i s = Some (b, s') \<Longrightarrow> only_last_error (mon s) (mon s')"
proof (induction "MAX_WAN_SERVERS - i" arbitrary: i s)
  case 0
  then show ?case
    by (subst (asm) check_wan_from_unfold) (auto split: if_splits)
next
  case (Suc k)
  let ?r = "check_wan_server E i (rd F_num_wan_servers s)"
  have f: "only_last_error (mon s) (mon (snd ?r))"
    using check_wan_server_frame [of "rd F_num_wan_servers s" E i] by simp
  have u: "check_wan_from E i s = Some (b, s')" by fact
  show ?case
  proof (cases "int i < num_wan_servers (mon s) \<and> i < MAX_WAN_SERVERS")
    case False
    with u show ?thesis
      by (subst (asm) check_wan_from_unfold) (auto split: if_splits)
  next
    case True
    show ?thesis
    proof (cases "fst ?r")
      case True
      with \<open>int i < num_wan_servers (mon s) \<and> i < MAX_WAN_SERVERS\<close> u have "s' = snd ?r"
        by (subst (asm) check_wan_from_unfold) auto
      with f show ?thesis by simp
    next
      case False
      with True u have "check_wan_from E (Suc i) (snd ?r) = Some (b, s')"
        by (subst (asm) check_wan_from_unfold) auto
      moreover have "k = MAX_WAN_SERVERS - Suc i" using Suc.hyps(2) by simp
      ultimately have "only_last_error (mon (snd ?r)) (mon s')"
        by (rule Suc.hyps(1) [rotated])
      with f show ?thesis by (rule only_last_error_trans)
    qed
  qed
qed

lemma check_wan_frame:
  "check_wan E s = Some (b, s') \<Longrightarrow> only_last_error (mon s) (mon s')"
  unfolding check_wan_def by (rule check_wan_from_frame)

lemma check_lan_frame:
  "only_last_error (mon s) (mon (snd (check_lan P E s)))"
  by (auto simp: check_lan_def Let_def split: prod.splits)


lemma monitor_inv_only_last_error:
  "only_last_error m m' \<Longrightarrow> monitor_inv m \<Longrightarrow> monitor_inv m'"
  by (auto simp: only_last_error_def monitor_inv_def config_valid_def fixed_wan_defaults_def)

lemma mon_route_scan [simp]: "mon (snd (route_scan P E lines s)) = mon s"
  by (induction lines arbitrary: s) (auto simp: Let_def split: prod.splits)

lemma detect_lan_interface_inv:
  "detect_lan_interface P E s = Some (b, s') \<Longrightarrow> monitor_inv (mon s) \<Longrightarrow> monitor_inv (mon s')"
proof -
  assume d: "detect_lan_interface P E s = Some (b, s')" and i: "monitor_inv (mon s)"
  obtain fp err where f: "sys_fopen_route E = (fp, err)" by (cases "sys_fopen_route E")
  show ?thesis
  proof (cases fp)
    case None
    with d f i show ?thesis
      by (auto simp: detect_lan_interface_def monitor_inv_def config_valid_def fixed_wan_defaults_def)
  next
    case (Some lines)
    obtain r s2 where rs: "route_scan P E lines (emit Fopen s) = (r, s2)"
      by (cases "route_scan P E lines (emit Fopen s)")
    have "mon s2 = mon s"
      using mon_route_scan [of P E lines "emit Fopen s"] rs by simp
    with d f i Some rs show ?thesis
      by (cases r)
         (auto simp: detect_lan_interface_def monitor_inv_def config_valid_def fixed_wan_defaults_def)
  qed
qed

lemma seed_wan_servers_mon:
  "num_wan_servers (mon s) = 4 \<Longrightarrow>
   mon (seed_wan_servers s) =
     (mon s)\<lparr>wan_servers := (wan_servers (mon s))
        (0 := wan_defaults ! 0, 1 := wan_defaults ! 1, 2 := wan_defaults ! 2, 3 := wan_defaults ! 3)\<rparr>"
  by (simp add: seed_wan_servers_def eval_nat_numeral)

lemma init_config_inv: "monitor_inv (mon (init_config cfg s))"
  by (auto simp: init_config_def Let_def seed_wan_servers_mon wan_defaults_def monitor_inv_def
      config_valid_def fixed_wan_defaults_def split: option.splits)

lemma init_lan_interface_inv:
  "init_lan_interface P E cfg s = Some s' \<Longrightarrow> monitor_inv (mon s) \<Longrightarrow> monitor_inv (mon s')"
  by (auto simp: init_lan_interface_def Let_def monitor_inv_def config_valid_def
      fixed_wan_defaults_def split: option.splits if_splits bool.splits
      dest!: detect_lan_interface_inv [unfolded monitor_inv_def config_valid_def fixed_wan_defaults_def])


lemma network_monitor_new_inv:
  assumes "network_monitor_new P E cfg = Handle s"
  shows "monitor_inv (mon s)"
proof -
  from assms obtain raw where raw: "sys_malloc E = Some raw"
    by (auto simp: network_monitor_new_def split: option.splits)
  let ?s6 = "init_config cfg (emit Malloc (start raw))"
  from assms raw obtain s7 where s7: "init_lan_interface P E cfg ?s6 = Some s7"
    by (auto simp: network_monitor_new_def split: option.splits)
  have i7: "monitor_inv (mon s7)"
    using init_lan_interface_inv [OF s7 init_config_inv] .
  have i9: "monitor_inv (mon (snd (check_lan P E (emit Socket s7))))"
    using monitor_inv_only_last_error [OF check_lan_frame [of "emit Socket s7" P E]] i7 by simp
  from assms raw s7 have
    "mon s = (mon (snd (check_lan P E (emit Socket s7))))
       \<lparr>wan_up := False, lan_up := False, last_check_time := 0, last_error := 0, running := True\<rparr>"
    by (auto simp: network_monitor_new_def Let_def split: prod.splits if_splits)
  with i9 show ?thesis
    by (simp add: monitor_inv_def config_valid_def fixed_wan_defaults_def)
qed

lemma monitor_iteration_inv:
  assumes "monitor_iteration P E s = Some (b, s')" and "monitor_inv (mon s)"
  shows "monitor_inv (mon s')"
proof (cases "running (mon s)")
  case False
  with assms show ?thesis by (auto simp: monitor_iteration_def Let_def)
next
  case True
  let ?s3 = "emit Unlock (rd F_check_interval_sec (rd F_running (emit Lock s)))"
  from assms(1) True obtain new_wan s4 where w: "check_wan E ?s3 = Some (new_wan, s4)"
    by (auto simp: monitor_iteration_def Let_def split: option.splits)
  have i4: "monitor_inv (mon s4)"
    using monitor_inv_only_last_error [OF check_wan_frame [OF w]] assms(2) by simp
  have i5: "monitor_inv (mon (snd (check_lan P E s4)))"
    using monitor_inv_only_last_error [OF check_lan_frame i4] .
  from assms(1) True w have
    "mon s' = (mon (snd (check_lan P E s4)))
       \<lparr>wan_up := new_wan, lan_up := fst (check_lan P E s4), last_check_time := sys_time E\<rparr>"
    by (auto simp: monitor_iteration_def Let_def split: prod.splits)
  with i5 show ?thesis
    by (simp add: monitor_inv_def config_valid_def fixed_wan_defaults_def)
qed

lemma reachable_inv: "reachable P m \<Longrightarrow> monitor_inv m"
proof (induction rule: reachable.induct)
  case (r_new E cfg s)
  then show ?case by (rule network_monitor_new_inv)
next
  case (r_check_wan m E b s)
  from monitor_inv_only_last_error [OF check_wan_frame [OF r_check_wan.hyps(2)]] r_check_wan.IH
  show ?case by simp
next
  case (r_check_lan m E)
  from monitor_inv_only_last_error [OF check_lan_frame [of "start m" P E]] r_check_lan.IH
  show ?case by simp
next
  case (r_iteration m E b s)
  from monitor_iteration_inv [OF r_iteration.hyps(2)] r_iteration.IH
  show ?case by simp
qed (auto simp: monitor_inv_def config_valid_def fixed_wan_defaults_def
       get_wan_status_def get_lan_status_def get_last_check_time_def get_last_error_def
       network_monitor_to_string_def
       set_timeout_ms_def set_check_interval_sec_def set_proxy_def set_wan_test_host_def
       set_wan_test_port_def set_lan_interface_def Let_def)

section \<open>The steps of check_wan\<close>

lemma connect_attempts_append [simp]:
  "connect_attempts (xs @ ys) = connect_attempts xs @ connect_attempts ys"
  by (induction xs rule: connect_attempts.induct) simp_all

lemmas check_wan_retry_unfold =
  check_wan_retry.simps [of _ _ _ 0] check_wan_retry.simps [of _ _ _ "Suc 0"]
  check_wan_retry.simps [of _ _ _ "Suc (Suc 0)"] check_wan_retry.simps [of _ _ _ "Suc (Suc (Suc 0))"]

lemma check_wan_retry_result:
  "fst (check_wan_retry E i req 0 s) =
     (fst (sys_connect E i 0 req) = 0 \<or> fst (sys_connect E i 1 req) = 0
      \<or> fst (sys_connect E i 2 req) = 0)"
  by (simp add: check_wan_retry_unfold Let_def split: prod.splits) (auto simp: numeral_2_eq_2)


lemma check_wan_retry_last_error:
  "last_error (mon (snd (check_wan_retry E i req 0 s))) =
     (if fst (check_wan_retry E i req 0 s) then 0 else snd (sys_connect E i 2 req))"
  by (simp add: check_wan_retry_unfold Let_def split: prod.splits) (auto simp: numeral_2_eq_2)

lemma check_wan_retry_trace:
  "trace (snd (check_wan_retry E i req 0 s)) = trace s @
     (if fst (sys_connect E i 0 req) = 0 then [Connect i 0, Close, Wr F_last_error]
      else [Connect i 0, Wr F_last_error, Usleep 100000] @
        (if fst (sys_connect E i 1 req) = 0 then [Connect i 1, Close, Wr F_last_error]
         else [Connect i 1, Wr F_last_error, Usleep 200000] @
           (if fst (sys_connect E i 2 req) = 0 then [Connect i 2, Close, Wr F_last_error]
            else [Connect i 2, Wr F_last_error, Usleep 400000])))"
  by (simp add: check_wan_retry_unfold Let_def push_bit_eq_mult split: prod.splits)
     (auto simp: numeral_2_eq_2)

lemma check_wan_server_result:
  "fst (check_wan_server E i s) = server_accepts E (mon s) i"
  by (auto simp: check_wan_server_def Let_def server_accepts_def server_ready_def connect_ok_def
      wan_req_def check_wan_retry_result split: prod.splits bool.splits
      dest!: arg_cong [where f = fst])


lemma check_wan_server_cases:
  obtains (no_socket) "fst (sys_socket_wan E i) < 0"
      "check_wan_server E i s =
         (False, wr F_last_error (\<lambda>m. m\<lparr>last_error := snd (sys_socket_wan E i)\<rparr>) (emit Socket s))"
  | (no_addr) "0 \<le> fst (sys_socket_wan E i)"
      "fst (sys_inet_pton E i (host (wan_servers (mon s) i))) \<le> 0"
      "check_wan_server E i s =
         (False, emit Close (wr F_last_error
            (\<lambda>m. m\<lparr>last_error := fst (snd (sys_inet_pton E i (host (wan_servers (mon s) i))))\<rparr>)
            (emit (InetPton i) (rd F_wan_servers (rd F_wan_servers (emit Setsockopt (emit Setsockopt
               (rd F_timeout_ms (rd F_timeout_ms (emit Socket s))))))))))"
  | (retry) s5 where "server_ready E (mon s) i"
      "s5 = emit (InetPton i) (rd F_wan_servers (rd F_wan_servers (emit Setsockopt (emit Setsockopt
               (rd F_timeout_ms (rd F_timeout_ms (emit Socket s)))))))"
      "check_wan_server E i s =
         (if fst (check_wan_retry E i (wan_req E (mon s) i) 0 s5)
          then check_wan_retry E i (wan_req E (mon s) i) 0 s5
          else (False, emit Close (snd (check_wan_retry E i (wan_req E (mon s) i) 0 s5))))"
proof -
  obtain sock err where a: "sys_socket_wan E i = (sock, err)" by (rule prod.exhaust)
  obtain ok perr addr where b: "sys_inet_pton E i (host (wan_servers (mon s) i)) = (ok, perr, addr)"
    by (rule prod_cases3)
  show thesis
  proof (cases "sock < 0")
    case True
    with a show thesis by (intro no_socket) (simp_all add: check_wan_server_def)
  next
    case False
    show thesis
    proof (cases "ok \<le> 0")
      case True
      with False a b show thesis
        by (intro no_addr) (simp_all add: check_wan_server_def Let_def)
    next
      case ok: False
      let ?s5 = "emit (InetPton i) (rd F_wan_servers (rd F_wan_servers (emit Setsockopt
          (emit Setsockopt (rd F_timeout_ms (rd F_timeout_ms (emit Socket s)))))))"
      have "check_wan_server E i s =
         (if fst (check_wan_retry E i (wan_req E (mon s) i) 0 ?s5)
          then check_wan_retry E i (wan_req E (mon s) i) 0 ?s5
          else (False, emit Close (snd (check_wan_retry E i (wan_req E (mon s) i) 0 ?s5))))"
        using False ok a b
        by (cases "check_wan_retry E i (wan_req E (mon s) i) 0 ?s5")
           (auto simp: check_wan_server_def Let_def wan_req_def)
      with False ok a b show thesis
        by (intro retry [of ?s5]) (simp_all add: server_ready_def)
    qed
  qed
qed

lemma check_wan_server_last_error:
  "last_error (mon (snd (check_wan_server E i s))) =
     (if server_accepts E (mon s) i then 0 else server_fail_code E (mon s) i)"
proof (cases rule: check_wan_server_cases [of E i s])
  case no_socket
  then show ?thesis by (simp add: server_accepts_def server_ready_def server_fail_code_def)
next
  case no_addr
  then show ?thesis by (simp add: server_accepts_def server_ready_def server_fail_code_def)
next
  case (retry s5)
  from retry(1) have "\<not> fst (sys_socket_wan E i) < 0"
    "\<not> fst (sys_inet_pton E i (host (wan_servers (mon s) i))) \<le> 0"
    by (simp_all add: server_ready_def)
  with retry show ?thesis
    using check_wan_retry_last_error [of E i "wan_req E (mon s) i" s5]
      check_wan_retry_result [of E i "wan_req E (mon s) i" s5]
    by (simp add: server_accepts_def connect_ok_def server_fail_code_def)
qed

lemma check_wan_server_attempts:
  "connect_attempts (trace (snd (check_wan_server E i s))) =
     connect_attempts (trace s) @ server_attempts E (mon s) i"
proof (cases rule: check_wan_server_cases [of E i s])
  case no_socket
  then show ?thesis by (simp add: server_attempts_def server_ready_def)
next
  case no_addr
  then show ?thesis by (simp add: server_attempts_def server_ready_def)
next
  case (retry s5)
  then show ?thesis
    using check_wan_retry_trace [of E i "wan_req E (mon s) i" s5]
      check_wan_retry_result [of E i "wan_req E (mon s) i" s5]
    by (simp add: server_attempts_def connect_ok_def)
qed


lemma only_last_error_wan:
  assumes "only_last_error m m'"
  shows "wan_req E m' i = wan_req E m i" "server_ready E m' i = server_ready E m i"
    "connect_ok E m' i r = connect_ok E m i r" "server_accepts E m' i = server_accepts E m i"
    "server_fail_code E m' i = server_fail_code E m i"
    "server_attempts E m' i = server_attempts E m i"
  using only_last_error_fields [OF assms]
  by (simp_all add: wan_req_def server_ready_def connect_ok_def server_accepts_def
      server_fail_code_def server_attempts_def)

lemma only_last_error_wan_attempts:
  "only_last_error m m' \<Longrightarrow> wan_attempts E m' i k = wan_attempts E m i k"
  by (induction k arbitrary: i) (simp_all add: only_last_error_wan)

lemma check_wan_from_spec:
  assumes "num_wan_servers (mon s) \<le> int MAX_WAN_SERVERS"
  shows "\<exists>b s'. check_wan_from E i s = Some (b, s')
     \<and> b = (\<exists>j. i \<le> j \<and> int j < num_wan_servers (mon s) \<and> server_accepts E (mon s) j)
     \<and> last_error (mon s') =
         (if b then 0
          else if int i < num_wan_servers (mon s)
          then server_fail_code E (mon s) (nat (num_wan_servers (mon s)) - 1)
          else last_error (mon s))
     \<and> connect_attempts (trace s') =
         connect_attempts (trace s) @ wan_attempts E (mon s) i (nat (num_wan_servers (mon s)) - i)"
  using assms
proof (induction "nat (num_wan_servers (mon s)) - i" arbitrary: i s)
  case 0
  then have "\<not> int i < num_wan_servers (mon s)" by linarith
  then show ?case
    by (subst check_wan_from_unfold) auto
next
  case (Suc k)
  let ?n = "num_wan_servers (mon s)"
  let ?r = "check_wan_server E i (rd F_num_wan_servers s)"
  from Suc.hyps(2) Suc.prems have i: "int i < ?n" "i < MAX_WAN_SERVERS" by linarith+
  have fr: "only_last_error (mon s) (mon (snd ?r))"
    using check_wan_server_frame [of "rd F_num_wan_servers s" E i] by simp
  have res: "fst ?r = server_accepts E (mon s) i"
    by (simp add: check_wan_server_result)
  have le: "last_error (mon (snd ?r)) =
      (if server_accepts E (mon s) i then 0 else server_fail_code E (mon s) i)"
    by (simp add: check_wan_server_last_error)
  have at: "connect_attempts (trace (snd ?r)) =
      connect_attempts (trace s) @ server_attempts E (mon s) i"
    by (simp add: check_wan_server_attempts)
  have k: "nat ?n - i = Suc (nat ?n - Suc i)" using Suc.hyps(2) by simp
  show ?case
  proof (cases "server_accepts E (mon s) i")
    case True
    with i res have "check_wan_from E i s = Some (True, snd ?r)"
      by (subst check_wan_from_unfold) simp
    moreover have "\<exists>j. i \<le> j \<and> int j < ?n \<and> server_accepts E (mon s) j"
      using True i by blast
    ultimately show ?thesis
      using le at True by (auto simp: k)
  next
    case False
    with i res have u: "check_wan_from E i s = check_wan_from E (Suc i) (snd ?r)"
      by (subst check_wan_from_unfold) simp
    have n': "num_wan_servers (mon (snd ?r)) = ?n"
      using only_last_error_fields(5) [OF fr] .
    have hk: "k = nat (num_wan_servers (mon (snd ?r))) - Suc i"
      using Suc.hyps(2) n' by simp
    have hn: "num_wan_servers (mon (snd ?r)) \<le> int MAX_WAN_SERVERS"
      using Suc.prems n' by simp
    note ih = Suc.hyps(1) [OF hk hn, unfolded n' only_last_error_wan(4,5) [OF fr]
        only_last_error_wan_attempts [OF fr]]
    from ih obtain b s' where
      c: "check_wan_from E (Suc i) (snd ?r) = Some (b, s')"
      and b: "b = (\<exists>j. Suc i \<le> j \<and> int j < ?n \<and> server_accepts E (mon s) j)"
      and e: "last_error (mon s') =
         (if b then 0
          else if int (Suc i) < ?n then server_fail_code E (mon s) (nat ?n - 1)
          else last_error (mon (snd ?r)))"
      and a: "connect_attempts (trace s') =
         connect_attempts (trace (snd ?r)) @ wan_attempts E (mon s) (Suc i) (nat ?n - Suc i)"
      by blast
    have b': "b = (\<exists>j. i \<le> j \<and> int j < ?n \<and> server_accepts E (mon s) j)"
    proof -
      have "(\<exists>j. i \<le> j \<and> int j < ?n \<and> server_accepts E (mon s) j)
          = (\<exists>j. Suc i \<le> j \<and> int j < ?n \<and> server_accepts E (mon s) j)"
        using False by (metis Suc_leI Suc_leD le_neq_implies_less)
      with b show ?thesis by simp
    qed
    have e': "last_error (mon s') =
        (if b then 0 else server_fail_code E (mon s) (nat ?n - 1))"
    proof (cases "int (Suc i) < ?n")
      case True
      with e show ?thesis by simp
    next
      case False
      with i have "nat ?n - 1 = i" by linarith
      with e False le \<open>\<not> server_accepts E (mon s) i\<close> show ?thesis by simp
    qed
    from u c b' e' a at False i show ?thesis
      by (auto simp: k)
  qed
qed

text \<open>A server that is ready and refuses all three attempts.\<close>

lemma check_wan_server_refused:
  assumes "server_ready E (mon s) i"
    and "\<not> connect_ok E (mon s) i 0" and "\<not> connect_ok E (mon s) i 1"
    and "\<not> connect_ok E (mon s) i 2"
  shows "\<exists>s1. check_wan_server E i s = (False, s1)
     \<and> trace s1 = trace s @
         [Socket, Rd F_timeout_ms, Rd F_timeout_ms, Setsockopt, Setsockopt,
          Rd F_wan_servers, Rd F_wan_servers, InetPton i,
          Connect i 0, Wr F_last_error, Usleep 100000,
          Connect i 1, Wr F_last_error, Usleep 200000,
          Connect i 2, Wr F_last_error, Usleep 400000, Close]
     \<and> mon s1 = (mon s)\<lparr>last_error := snd (sys_connect E i 2 (wan_req E (mon s) i))\<rparr>"
proof -
  let ?r = "check_wan_server E i s"
  have na: "\<not> server_accepts E (mon s) i"
    using assms(2-4) by (simp add: server_accepts_def)
  have f: "\<not> fst ?r"
    using na by (simp add: check_wan_server_result)
  have le: "last_error (mon (snd ?r)) = snd (sys_connect E i 2 (wan_req E (mon s) i))"
    using check_wan_server_last_error [of E i s] na assms(1)
    by (simp add: server_fail_code_def server_ready_def)
  have "only_last_error (mon s) (mon (snd ?r))"
    by (rule check_wan_server_frame)
  with le have m: "mon (snd ?r) = (mon s)\<lparr>last_error := snd (sys_connect E i 2 (wan_req E (mon s) i))\<rparr>"
    by (auto simp: only_last_error_def)
  have t: "trace (snd ?r) = trace s @
         [Socket, Rd F_timeout_ms, Rd F_timeout_ms, Setsockopt, Setsockopt,
          Rd F_wan_servers, Rd F_wan_servers, InetPton i,
          Connect i 0, Wr F_last_error, Usleep 100000,
          Connect i 1, Wr F_last_error, Usleep 200000,
          Connect i 2, Wr F_last_error, Usleep 400000, Close]"
  proof (cases rule: check_wan_server_cases [of E i s])
    case no_socket
    with assms(1) show ?thesis by (simp add: server_ready_def)
  next
    case no_addr
    with assms(1) show ?thesis by (simp add: server_ready_def)
  next
    case (retry s5)
    have "\<not> fst (check_wan_retry E i (wan_req E (mon s) i) 0 s5)"
      using assms(2-4) by (simp add: check_wan_retry_result connect_ok_def)
    with retry assms(2-4) show ?thesis
      using check_wan_retry_trace [of E i "wan_req E (mon s) i" s5]
      by (simp add: connect_ok_def)
  qed
  from f t m show ?thesis
    by (intro exI [of _ "snd ?r"]) (simp add: prod_eq_iff)
qed

text \<open>
  The events a check adds come after those it started from, and the mutex is not among
  them.
\<close>

lemma lock_free_simps [simp]:
  "lock_free []" "lock_free (e # es) = (e \<noteq> Lock \<and> e \<noteq> Unlock \<and> lock_free es)"
  "lock_free (es @ es') = (lock_free es \<and> lock_free es')"
  by (auto simp: lock_free_def)

lemma io_unlocked_lock_free:
  "lock_free es \<Longrightarrow> io_unlocked False (es @ rest) = io_unlocked False rest"
proof (induction es)
  case Nil
  show ?case by simp
next
  case (Cons e es)
  then show ?case by (cases e) simp_all
qed

lemma check_wan_retry_events:
  "\<exists>es. trace (snd (check_wan_retry E i req retry s)) = trace s @ es \<and> lock_free es"
proof (induction E i req retry s rule: check_wan_retry.induct)
  case (1 E i req retry s)
  show ?case
  proof (cases "retry < 3")
    case False
    then show ?thesis by (simp add: check_wan_retry.simps)
  next
    case True
    obtain ret err where c: "sys_connect E i retry req = (ret, err)" by (rule prod.exhaust)
    show ?thesis
    proof (cases "ret = 0")
      case True
      with \<open>retry < 3\<close> c show ?thesis
        by (subst check_wan_retry.simps) simp
    next
      case False
      from "1.IH" [OF \<open>retry < 3\<close> refl c [symmetric] refl False]
      obtain es where "trace (snd (check_wan_retry E i req (Suc retry)
               (emit (Usleep (push_bit retry 100000))
                  (wr F_last_error (\<lambda>m. m\<lparr>last_error := err\<rparr>) (emit (Connect i retry) s)))))
             = trace s @ [Connect i retry, Wr F_last_error, Usleep (push_bit retry 100000)] @ es"
        and "lock_free es"
        by auto
      with \<open>retry < 3\<close> c False show ?thesis
        by (subst check_wan_retry.simps) simp
    qed
  qed
qed

lemma check_wan_server_events:
  "\<exists>es. trace (snd (check_wan_server E i s)) = trace s @ es \<and> lock_free es"
proof (cases rule: check_wan_server_cases [of E i s])
  case no_socket
  then show ?thesis by simp
next
  case no_addr
  then show ?thesis by simp
next
  case (retry s5)
  from check_wan_retry_events [of E i "wan_req E (mon s) i" 0 s5] retry(2)
  obtain es where "trace (snd (check_wan_retry E i (wan_req E (mon s) i) 0 s5)) =
      trace s @ [Socket, Rd F_timeout_ms, Rd F_timeout_ms, Setsockopt, Setsockopt,
        Rd F_wan_servers, Rd F_wan_servers, InetPton i] @ es" and "lock_free es"
    by auto
  with retry(3) show ?thesis by simp
qed

lemma check_wan_from_events:
  "check_wan_from E i s = Some (b, s') \<Longrightarrow>
   \<exists>es. trace s' = trace s @ Rd F_num_wan_servers # es \<and> lock_free es"
proof (induction "MAX_WAN_SERVERS - i" arbitrary: i s)
  case 0
  then show ?case
    by (subst (asm) check_wan_from_unfold) (auto split: if_splits)
next
  case (Suc k)
  let ?r = "check_wan_server E i (rd F_num_wan_servers s)"
  from check_wan_server_events [of E i "rd F_num_wan_servers s"]
  obtain es where es: "trace (snd ?r) = trace s @ Rd F_num_wan_servers # es" "lock_free es"
    by auto
  have u: "check_wan_from E i s = Some (b, s')" by fact
  show ?case
  proof (cases "int i < num_wan_servers (mon s) \<and> i < MAX_WAN_SERVERS")
    case False
    with u show ?thesis
      by (subst (asm) check_wan_from_unfold) (auto split: if_splits)
  next
    case True
    show ?thesis
    proof (cases "fst ?r")
      case True
      with \<open>int i < num_wan_servers (mon s) \<and> i < MAX_WAN_SERVERS\<close> u have "s' = snd ?r"
        by (subst (asm) check_wan_from_unfold) auto
      with es show ?thesis by simp
    next
      case False
      with True u have "check_wan_from E (Suc i) (snd ?r) = Some (b, s')"
        by (subst (asm) check_wan_from_unfold) auto
      moreover have "k = MAX_WAN_SERVERS - Suc i" using Suc.hyps(2) by simp
      ultimately obtain es' where "trace s' = trace (snd ?r) @ Rd F_num_wan_servers # es'"
        "lock_free es'"
        using Suc.hyps(1) by blast
      with es show ?thesis by simp
    qed
  qed
qed

section \<open>The example monitor is constructed\<close>

lemma network_monitor_new_Handle:
  assumes "sys_malloc E = Some raw"
    and "init_lan_interface P E cfg (init_config cfg (emit Malloc (start raw))) = Some s7"
    and "0 \<le> fst (sys_socket_new E)"
    and "fst (check_lan P E (emit Socket s7))"
    and "sys_mutex_init E = 0" and "sys_pthread_create E = 0"
  shows "\<exists>s. network_monitor_new P E cfg = Handle s"
  using assms
  by (cases "sys_socket_new E"; cases "check_lan P E (emit Socket s7)")
     (auto simp: network_monitor_new_def Let_def)

lemma example_scan:
  "fst (route_scan linux_platform (example_env up fl)
example_routes s) = Found ''eth0''"
  by (simp add: example_routes_def example_env_def linux_platform_def Let_def)

lemma example_detect:
  "\<exists>s'. detect_lan_interface linux_platform (example_env up fl) s = Some (True, s')"
proof -
  have f: "sys_fopen_route (example_env up fl) =
(Some example_routes, 0)"
    by (simp add: example_env_def)
  obtain r s2 where rs: "route_scan linux_platform (example_env up fl)
example_routes (emit Fopen s) = (r, s2)"
    by (rule prod.exhaust)
  with example_scan [of up fl "emit Fopen s"] have "r = Found ''eth0''"
    by simp
  with rs show ?thesis
    by (simp add: detect_lan_interface_def f)
qed

lemma example_check_lan:
  "fst (check_lan linux_platform (example_env up 4163) s)"
  by (simp add: check_lan_def example_env_def linux_platform_def Let_def)

lemma example_new:
  "\<exists>s. network_monitor_new linux_platform (example_env up 4163) None = Handle s"
proof -
  let ?E = "example_env up 4163"
  let ?s6 = "init_config None (emit Malloc (start example_monitor))"
  obtain s' where "detect_lan_interface linux_platform ?E ?s6 = Some (True, s')"
    using example_detect by blast
  then have "init_lan_interface linux_platform ?E None ?s6 = Some s'"
    by (simp add: init_lan_interface_def)
  moreover have "sys_malloc ?E = Some example_monitor" "0 \<le> fst (sys_socket_new ?E)"
    "sys_mutex_init ?E = 0" "sys_pthread_create ?E = 0"
    by (simp_all add: example_env_def)
  ultimately show ?thesis
    using example_check_lan by (intro network_monitor_new_Handle) 
qed

lemma example_monitor_servers:
  "num_wan_servers example_monitor = 4" "timeout_ms example_monitor = 500"
  by (simp_all add: example_monitor_def)

lemma example_server_ready: "server_ready (example_env up fl) m i"
  by (simp add: server_ready_def example_env_def)

lemma example_connect_ok: "connect_ok (example_env up fl) m i r = up i r"
  by (simp add: connect_ok_def example_env_def)

lemma example_fail_code: "server_fail_code (example_env (\<lambda>i r. False) fl) m i = 111"
  by (simp add: server_fail_code_def example_env_def)

lemma example_monitor_fields:
  "running example_monitor" "check_interval_sec example_monitor = 2"
  by (simp_all add: example_monitor_def)

section \<open>Properties of check_lan\<close>

text \<open>
  Claim C6. \<open>check_lan\<close> returns true exactly when the query socket opens, the flags
  query succeeds and both \<open>IFF_UP\<close> and \<open>IFF_RUNNING\<close> are set in the flags it gives.
\<close>

theorem check_lan_true_iff:
  "fst (check_lan P E s) =
     (0 \<le> fst (sys_socket_lan E) \<and> 0 \<le> fst (lan_query P E (mon s))
      \<and> snd (snd (lan_query P E (mon s))) AND IFF_UP P \<noteq> 0
      \<and> snd (snd (lan_query P E (mon s))) AND IFF_RUNNING P \<noteq> 0)"
proof -
  obtain sock err where sk: "sys_socket_lan E = (sock, err)"
    by (rule prod.exhaust)
  obtain ret ierr ifr_flags where q: "lan_query P E (mon s) = (ret, ierr, ifr_flags)"
    by (rule prod_cases3)
  show ?thesis
  proof (cases "sock < 0")
    case True
    with sk show ?thesis by (simp add: check_lan_def)
  next
    case False
    show ?thesis
    proof (cases "ret < 0")
      case True
      with False sk q show ?thesis by (simp add: check_lan_def lan_query_def Let_def)
    next
      case ok: False
      with False sk q show ?thesis by (simp add: check_lan_def lan_query_def Let_def)
    qed
  qed
qed

theorem check_lan_true_iff_witness:
  "fst (check_lan linux_platform (example_env (\<lambda>i r. False) 4163) (start example_monitor))
   \<and> \<not> fst (check_lan linux_platform (example_env (\<lambda>i r. False) 4099) (start example_monitor))
   \<and> \<not> fst (check_lan linux_platform (example_env (\<lambda>i r. False) 4162) (start example_monitor))"
  using check_lan_true_iff [of linux_platform "example_env (\<lambda>i r. False) 4163" "start example_monitor"]
    check_lan_true_iff [of linux_platform "example_env (\<lambda>i r. False) 4099" "start example_monitor"]
    check_lan_true_iff [of linux_platform "example_env (\<lambda>i r. False) 4162" "start example_monitor"]
  by (simp add: lan_query_def example_env_def linux_platform_def)

text \<open>
  Claim C7. When the socket opens and the flags query succeeds, \<open>check_lan\<close> ends with
  \<open>last_error\<close> 0 if its result is true, and with the \<open>last_error\<close> it started from if its
  result is false.
\<close>

theorem check_lan_keeps_stale_error:
  assumes "0 \<le> fst (sys_socket_lan E)" and "0 \<le> fst (lan_query P E (mon s))"
  shows "last_error (mon (snd (check_lan P E s))) =
           (if fst (check_lan P E s) then 0 else last_error (mon s))"
  using assms
  by (auto simp: check_lan_def lan_query_def Let_def split: prod.splits)

theorem check_lan_keeps_stale_error_witness:
  "0 \<le> fst (sys_socket_lan (example_env (\<lambda>i r. False) 4099))
   \<and> 0 \<le> fst (lan_query linux_platform (example_env (\<lambda>i r. False) 4099) example_monitor)
   \<and> \<not> fst (check_lan linux_platform (example_env (\<lambda>i r. False) 4099) (start example_monitor))
   \<and> last_error example_monitor = 113
   \<and> last_error (mon (snd (check_lan linux_platform (example_env (\<lambda>i r. False) 4099)
         (start example_monitor)))) = 113"
proof -
  let ?E = "example_env (\<lambda>i r. False) 4099"
  have h1: "0 \<le> fst (sys_socket_lan ?E)"
    by (simp add: example_env_def)
  have h2: "0 \<le> fst (lan_query linux_platform ?E (mon (start example_monitor)))"
    by (simp add: example_env_def lan_query_def)
  have down: "\<not> fst (check_lan linux_platform ?E (start example_monitor))"
    by (simp add: check_lan_def example_env_def linux_platform_def Let_def)
  have e: "last_error example_monitor = 113"
    by (simp add: example_monitor_def)
  show ?thesis
    using h1 h2 down e check_lan_keeps_stale_error [OF h1 h2]
    by simp
qed

section \<open>Properties of detect_lan_interface\<close>

lemma route_scan_first_default_route:
  "fields_fit P E lines \<Longrightarrow>
   fst (route_scan P E lines s) =
     (case first_default_route P E lines of None \<Rightarrow> NotFound | Some name \<Rightarrow> Found name)"
proof (induction lines arbitrary: s)
  case Nil
  show ?case by (simp add: first_default_route_def)
next
  case (Cons line rest)
  obtain n name dest gw flags where p: "sys_sscanf_route E line = (n, name, dest, gw, flags)"
    by (cases "sys_sscanf_route E line")
  from Cons.prems p have fit: "length name < 256" "length name < IF_NAMESIZE P"
    and rest: "fields_fit P E rest"
    by (simp_all add: fields_fit_def)
  show ?case
  proof (cases "route_qualifies P (n, name, dest, gw, flags)")
    case True
    with p fit show ?thesis
      by (simp add: first_default_route_def route_qualifies_def)
  next
    case False
    with p fit have "fst (route_scan P E (line # rest) s)
        = fst (route_scan P E rest (emit Sscanf (emit Fgets s)))"
      by (auto simp: route_qualifies_def Let_def)
    also have "\<dots> = (case first_default_route P E rest of None \<Rightarrow> NotFound | Some name \<Rightarrow> Found name)"
      by (rule Cons.IH [OF rest])
    also have "first_default_route P E rest = first_default_route P E (line # rest)"
      using False p by (simp add: first_default_route_def)
    finally show ?thesis .
  qed
qed

text \<open>
  Claim C5. When the routing table cannot be opened, the detection returns false with
  \<open>last_error\<close> the error of \<^verbatim>\<open>fopen\<close>. Otherwise it returns true with the interface name
  of the first line that qualifies, stored in \<open>lan_interface\<close>, or false when no line
  qualifies; in both cases \<open>last_error\<close> is 0. A run that returns false leaves
  \<open>lan_interface\<close> as it was.
\<close>

theorem detect_lan_interface_first_default_route:
  assumes "case fst (sys_fopen_route E) of None \<Rightarrow> True | Some lines \<Rightarrow> fields_fit P E lines"
  shows "\<exists>b s'. detect_lan_interface P E s = Some (b, s') \<and>
     (case fst (sys_fopen_route E) of
        None \<Rightarrow> \<not> b \<and> last_error (mon s') = snd (sys_fopen_route E)
                 \<and> lan_interface (mon s') = lan_interface (mon s)
      | Some lines \<Rightarrow>
          (case first_default_route P E lines of
             Some name \<Rightarrow> b \<and> lan_interface (mon s') = name \<and> last_error (mon s') = 0
           | None \<Rightarrow> \<not> b \<and> last_error (mon s') = 0
                     \<and> lan_interface (mon s') = lan_interface (mon s)))"
proof -
  obtain fp err where f: "sys_fopen_route E = (fp, err)" by (cases "sys_fopen_route E")
  show ?thesis
  proof (cases fp)
    case None
    with f show ?thesis by (auto simp: detect_lan_interface_def)
  next
    case (Some lines)
    with assms f have fit: "fields_fit P E lines" by simp
    obtain r s2 where rs: "route_scan P E lines (emit Fopen s) = (r, s2)"
      by (cases "route_scan P E lines (emit Fopen s)")
    have m: "mon s2 = mon s"
      using mon_route_scan [of P E lines "emit Fopen s"] rs by simp
    have r: "r = (case first_default_route P E lines of None \<Rightarrow> NotFound | Some name \<Rightarrow> Found name)"
      using route_scan_first_default_route [OF fit, of "emit Fopen s"] rs by simp
    show ?thesis
    proof (cases "first_default_route P E lines")
      case None
      with r rs f Some m show ?thesis by (auto simp: detect_lan_interface_def)
    next
      case (Some name)
      from Some obtain e where e: "find (route_qualifies P) (map (sys_sscanf_route E) lines) = Some e"
        and n: "name = fst (snd e)"
        by (auto simp: first_default_route_def)
      from e have "e \<in> set (map (sys_sscanf_route E) lines)"
        by (induction lines) (auto split: if_splits)
      with n have "name \<in> (\<lambda>e. fst (snd e)) ` set (map (sys_sscanf_route E) lines)"
        by blast
      with fit have "length name < IF_NAMESIZE P"
        by (auto simp: fields_fit_def list_all_iff)
      with r rs f \<open>fp = Some lines\<close> m Some show ?thesis
        by (auto simp: detect_lan_interface_def strncpy_nul_def)
    qed
  qed
qed

text \<open>
  The example table: the first default route is that of eth0, before the one of wlan0.
\<close>

theorem detect_lan_interface_first_default_route_witness:
  "(case fst (sys_fopen_route (example_env (\<lambda>i r. False) 4163)) of
      None \<Rightarrow> True
    | Some lines \<Rightarrow> fields_fit linux_platform (example_env (\<lambda>i r. False) 4163) lines)
   \<and> fst (sys_fopen_route (example_env (\<lambda>i r. False) 4163)) = Some example_routes
   \<and> first_default_route linux_platform (example_env (\<lambda>i r. False) 4163) example_routes
       = Some ''eth0''
   \<and> lan_interface example_monitor = ''wlan0''
   \<and> (\<exists>s'. detect_lan_interface linux_platform (example_env (\<lambda>i r. False) 4163)
               (start example_monitor) = Some (True, s')
          \<and> lan_interface (mon s') = ''eth0'' \<and> last_error (mon s') = 0)"
proof -
  let ?E = "example_env (\<lambda>i r. False) 4163"
  have f: "fst (sys_fopen_route ?E) = Some example_routes"
    by (simp add: example_env_def)
  have fit: "fields_fit linux_platform ?E example_routes"
    by (simp add: fields_fit_def example_routes_def example_env_def linux_platform_def)
  have h: "case fst (sys_fopen_route ?E) of None \<Rightarrow> True
           | Some lines \<Rightarrow> fields_fit linux_platform ?E lines"
    using fit by (simp add: f)
  have r: "first_default_route linux_platform ?E example_routes = Some ''eth0''"
    by (simp add: first_default_route_def route_qualifies_def example_routes_def example_env_def
        linux_platform_def)
  have l: "lan_interface example_monitor = ''wlan0''"
    by (simp add: example_monitor_def)
  from detect_lan_interface_first_default_route [OF h, of "start example_monitor"] f r
  have "\<exists>s'. detect_lan_interface linux_platform ?E (start example_monitor) = Some (True, s')
          \<and> lan_interface (mon s') = ''eth0'' \<and> last_error (mon s') = 0"
    by auto
  with h f r l show ?thesis by blast
qed

section \<open>Properties of check_wan\<close>

text \<open>
  Claim C1. With at least one server in the list, \<open>check_wan\<close> returns true exactly when
  some server of the list accepts a connect attempt; its connect calls are those of the
  servers in list order up to the first server that accepts, and none after the attempt
  that succeeds. It ends with \<open>last_error\<close> 0 when it returns true, and with the error
  recorded last for the last server when it returns false.
\<close>

theorem check_wan_first_success:
  assumes "0 < num_wan_servers (mon s)" and "num_wan_servers (mon s) \<le> int MAX_WAN_SERVERS"
  shows "\<exists>b s'. check_wan E s = Some (b, s')
     \<and> b = (\<exists>i. int i < num_wan_servers (mon s) \<and> server_accepts E (mon s) i)
     \<and> last_error (mon s') =
         (if b then 0 else server_fail_code E (mon s) (nat (num_wan_servers (mon s)) - 1))
     \<and> connect_attempts (trace s') =
         connect_attempts (trace s) @ wan_attempts E (mon s) 0 (nat (num_wan_servers (mon s)))"
proof -
  from check_wan_from_spec [OF assms(2), of E 0] obtain b s' where
    "check_wan_from E 0 s = Some (b, s')"
    "b = (\<exists>j. 0 \<le> j \<and> int j < num_wan_servers (mon s) \<and> server_accepts E (mon s) j)"
    "last_error (mon s') =
       (if b then 0
        else if int 0 < num_wan_servers (mon s)
        then server_fail_code E (mon s) (nat (num_wan_servers (mon s)) - 1)
        else last_error (mon s))"
    "connect_attempts (trace s') =
       connect_attempts (trace s) @ wan_attempts E (mon s) 0 (nat (num_wan_servers (mon s)) - 0)"
    by blast
  with assms(1) show ?thesis
    by (intro exI [of _ b] exI [of _ s']) (auto simp: check_wan_def)
qed

text \<open>
  One run in which the second attempt to server 1 succeeds, and one in which every
  attempt fails with error 111.
\<close>

theorem check_wan_first_success_witness:
  "0 < num_wan_servers (mon (start example_monitor))
   \<and> num_wan_servers (mon (start example_monitor)) \<le> int MAX_WAN_SERVERS
   \<and> (\<exists>s'. check_wan (example_env (\<lambda>i r. i = 1 \<and> r = 1) 4163) (start example_monitor)
               = Some (True, s')
          \<and> last_error (mon s') = 0
          \<and> connect_attempts (trace s') = [(0, 0), (0, 1), (0, 2), (1, 0), (1, 1)])
   \<and> (\<exists>s'. check_wan (example_env (\<lambda>i r. False) 4163) (start example_monitor)
               = Some (False, s')
          \<and> last_error (mon s') = 111
          \<and> connect_attempts (trace s') =
               [(0, 0), (0, 1), (0, 2), (1, 0), (1, 1), (1, 2),
                (2, 0), (2, 1), (2, 2), (3, 0), (3, 1), (3, 2)])"
proof -
  have h1: "0 < num_wan_servers (mon (start example_monitor))"
    by (simp add: example_monitor_servers)
  have h2: "num_wan_servers (mon (start example_monitor)) \<le> int MAX_WAN_SERVERS"
    by (simp add: example_monitor_servers MAX_WAN_SERVERS_def)
  have up: "\<exists>i. int i < 4 \<and> server_accepts (example_env (\<lambda>i r. i = 1 \<and> r = 1) 4163) example_monitor i"
    by (rule exI [of _ 1]) (simp add: server_accepts_def example_server_ready example_connect_ok)
  have a: "\<exists>s'. check_wan (example_env (\<lambda>i r. i = 1 \<and> r = 1) 4163) (start example_monitor)
               = Some (True, s')
          \<and> last_error (mon s') = 0
          \<and> connect_attempts (trace s') = [(0, 0), (0, 1), (0, 2), (1, 0), (1, 1)]"
    using check_wan_first_success [OF h1 h2, of "example_env (\<lambda>i r. i = 1 \<and> r = 1) 4163"] up
    by (auto simp: example_monitor_servers eval_nat_numeral server_attempts_def server_accepts_def
        example_server_ready example_connect_ok)
  have b: "\<exists>s'. check_wan (example_env (\<lambda>i r. False) 4163) (start example_monitor)
               = Some (False, s')
          \<and> last_error (mon s') = 111
          \<and> connect_attempts (trace s') =
               [(0, 0), (0, 1), (0, 2), (1, 0), (1, 1), (1, 2),
                (2, 0), (2, 1), (2, 2), (3, 0), (3, 1), (3, 2)]"
    using check_wan_first_success [OF h1 h2, of "example_env (\<lambda>i r. False) 4163"]
    by (auto simp: example_monitor_servers eval_nat_numeral server_attempts_def server_accepts_def
        example_server_ready example_connect_ok example_fail_code)
  from h1 h2 a b show ?thesis by blast
qed


text \<open>
  Claim C2. For a server the loop reaches, whose socket and address are there and whose
  three connect attempts fail, the body of the loop makes exactly three connect calls,
  with a sleep of 100000, 200000 and 400000 microseconds after the first, second and
  third, then closes the socket and returns without success; \<open>check_wan_from\<close> goes on
  with the next index, and the run it returns starts with these events, followed by the
  connect calls of the servers after this one.
\<close>

theorem three_attempts_with_backoff:
  assumes "int i < num_wan_servers (mon s)"
    and "num_wan_servers (mon s) \<le> int MAX_WAN_SERVERS"
    and "server_ready E (mon s) i"
    and "\<not> connect_ok E (mon s) i 0" and "\<not> connect_ok E (mon s) i 1"
    and "\<not> connect_ok E (mon s) i 2"
  shows "\<exists>s1 b s' es.
       check_wan_server E i (rd F_num_wan_servers s) = (False, s1)
     \<and> trace s1 = trace s @
         [Rd F_num_wan_servers, Socket, Rd F_timeout_ms, Rd F_timeout_ms, Setsockopt, Setsockopt,
          Rd F_wan_servers, Rd F_wan_servers, InetPton i,
          Connect i 0, Wr F_last_error, Usleep 100000,
          Connect i 1, Wr F_last_error, Usleep 200000,
          Connect i 2, Wr F_last_error, Usleep 400000, Close]
     \<and> mon s1 = (mon s)\<lparr>last_error := snd (sys_connect E i 2 (wan_req E (mon s) i))\<rparr>
     \<and> check_wan_from E i s = check_wan_from E (Suc i) s1
     \<and> check_wan_from E i s = Some (b, s')
     \<and> trace s' = trace s1 @ Rd F_num_wan_servers # es
     \<and> connect_attempts es = wan_attempts E (mon s) (Suc i) (nat (num_wan_servers (mon s)) - Suc i)"
proof -
  let ?s0 = "rd F_num_wan_servers s"
  from assms(1,2) have i: "i < MAX_WAN_SERVERS" by linarith
  from check_wan_server_refused [of E ?s0 i] assms(3-6) obtain s1 where
    r: "check_wan_server E i ?s0 = (False, s1)"
    and t: "trace s1 = trace s @
         [Rd F_num_wan_servers, Socket, Rd F_timeout_ms, Rd F_timeout_ms, Setsockopt, Setsockopt,
          Rd F_wan_servers, Rd F_wan_servers, InetPton i,
          Connect i 0, Wr F_last_error, Usleep 100000,
          Connect i 1, Wr F_last_error, Usleep 200000,
          Connect i 2, Wr F_last_error, Usleep 400000, Close]"
    and m: "mon s1 = (mon s)\<lparr>last_error := snd (sys_connect E i 2 (wan_req E (mon s) i))\<rparr>"
    by auto
  have u: "check_wan_from E i s = check_wan_from E (Suc i) s1"
    using assms(1) i r by (subst check_wan_from_unfold) simp
  have fr: "only_last_error (mon s) (mon s1)"
    using m by (auto simp: only_last_error_def)
  have n1: "num_wan_servers (mon s1) = num_wan_servers (mon s)"
    using m by simp
  have le: "num_wan_servers (mon s1) \<le> int MAX_WAN_SERVERS"
    using assms(2) n1 by simp
  from check_wan_from_spec [OF le, of E "Suc i"] obtain b s' where
    c: "check_wan_from E (Suc i) s1 = Some (b, s')"
    and a: "connect_attempts (trace s') = connect_attempts (trace s1)
        @ wan_attempts E (mon s1) (Suc i) (nat (num_wan_servers (mon s1)) - Suc i)"
    by blast
  from check_wan_from_events [OF c] obtain es where
    e: "trace s' = trace s1 @ Rd F_num_wan_servers # es"
    by blast
  from a e have "connect_attempts es =
      wan_attempts E (mon s) (Suc i) (nat (num_wan_servers (mon s)) - Suc i)"
    by (simp add: n1 only_last_error_wan_attempts [OF fr])
  with r t m u c e show ?thesis by auto
qed

text \<open>Server 0 refuses all three attempts and server 1 accepts the first.\<close>

theorem three_attempts_with_backoff_witness:
  "int 0 < num_wan_servers (mon (start example_monitor))
   \<and> num_wan_servers (mon (start example_monitor)) \<le> int MAX_WAN_SERVERS
   \<and> server_ready (example_env (\<lambda>i r. 0 < i) 4163) (mon (start example_monitor)) 0
   \<and> \<not> connect_ok (example_env (\<lambda>i r. 0 < i) 4163) (mon (start example_monitor)) 0 0
   \<and> \<not> connect_ok (example_env (\<lambda>i r. 0 < i) 4163) (mon (start example_monitor)) 0 1
   \<and> \<not> connect_ok (example_env (\<lambda>i r. 0 < i) 4163) (mon (start example_monitor)) 0 2
   \<and> (\<exists>s1 b s' es.
          check_wan_server (example_env (\<lambda>i r. 0 < i) 4163) 0
            (rd F_num_wan_servers (start example_monitor)) = (False, s1)
        \<and> trace s1 =
            [Rd F_num_wan_servers, Socket, Rd F_timeout_ms, Rd F_timeout_ms, Setsockopt,
             Setsockopt, Rd F_wan_servers, Rd F_wan_servers, InetPton 0,
             Connect 0 0, Wr F_last_error, Usleep 100000,
             Connect 0 1, Wr F_last_error, Usleep 200000,
             Connect 0 2, Wr F_last_error, Usleep 400000, Close]
        \<and> last_error (mon s1) = 111
        \<and> check_wan_from (example_env (\<lambda>i r. 0 < i) 4163) 0 (start example_monitor)
            = Some (b, s')
        \<and> trace s' = trace s1 @ Rd F_num_wan_servers # es
        \<and> connect_attempts es = [(1, 0)])"
proof -
  let ?E = "example_env (\<lambda>i r. 0 < i) 4163"
  let ?s = "start example_monitor"
  have h1: "int 0 < num_wan_servers (mon ?s)" by (simp add: example_monitor_servers)
  have h2: "num_wan_servers (mon ?s) \<le> int MAX_WAN_SERVERS"
    by (simp add: example_monitor_servers MAX_WAN_SERVERS_def)
  have h3: "server_ready ?E (mon ?s) 0" by (rule example_server_ready)
  have h4: "\<not> connect_ok ?E (mon ?s) 0 0" "\<not> connect_ok ?E (mon ?s) 0 1"
    "\<not> connect_ok ?E (mon ?s) 0 2"
    by (simp_all add: example_connect_ok)
  have c: "snd (sys_connect ?E 0 2 (wan_req ?E (mon ?s) 0)) = 111"
    by (simp add: example_env_def)
  have w: "wan_attempts ?E (mon ?s) (Suc 0) (nat (num_wan_servers (mon ?s)) - Suc 0) = [(1, 0)]"
    by (simp add: example_monitor_servers eval_nat_numeral server_attempts_def server_accepts_def
        example_server_ready example_connect_ok)
  from three_attempts_with_backoff [OF h1 h2 h3 h4] obtain s1 b s' es where
    "check_wan_server ?E 0 (rd F_num_wan_servers ?s) = (False, s1)"
    "trace s1 = trace ?s @
         [Rd F_num_wan_servers, Socket, Rd F_timeout_ms, Rd F_timeout_ms, Setsockopt, Setsockopt,
          Rd F_wan_servers, Rd F_wan_servers, InetPton 0,
          Connect 0 0, Wr F_last_error, Usleep 100000,
          Connect 0 1, Wr F_last_error, Usleep 200000,
          Connect 0 2, Wr F_last_error, Usleep 400000, Close]"
    "mon s1 = (mon ?s)\<lparr>last_error := snd (sys_connect ?E 0 2 (wan_req ?E (mon ?s) 0))\<rparr>"
    "check_wan_from ?E 0 ?s = Some (b, s')"
    "trace s' = trace s1 @ Rd F_num_wan_servers # es"
    "connect_attempts es = wan_attempts ?E (mon ?s) (Suc 0) (nat (num_wan_servers (mon ?s)) - Suc 0)"
    by blast
  with c w have "\<exists>s1 b s' es.
          check_wan_server ?E 0 (rd F_num_wan_servers ?s) = (False, s1)
        \<and> trace s1 =
            [Rd F_num_wan_servers, Socket, Rd F_timeout_ms, Rd F_timeout_ms, Setsockopt,
             Setsockopt, Rd F_wan_servers, Rd F_wan_servers, InetPton 0,
             Connect 0 0, Wr F_last_error, Usleep 100000,
             Connect 0 1, Wr F_last_error, Usleep 200000,
             Connect 0 2, Wr F_last_error, Usleep 400000, Close]
        \<and> last_error (mon s1) = 111
        \<and> check_wan_from ?E 0 ?s = Some (b, s')
        \<and> trace s' = trace s1 @ Rd F_num_wan_servers # es
        \<and> connect_attempts es = [(1, 0)]"
    by (intro exI [of _ s1] exI [of _ b] exI [of _ s'] exI [of _ es]) simp
  with h1 h2 h3 h4 show ?thesis by blast
qed

section \<open>The background thread\<close>

text \<open>
  What one pass on a running monitor publishes: the result of the WAN check, the result of
  the LAN check, the time, and in \<open>last_error\<close> the error of the LAN query if it failed, 0
  if either check succeeded, and otherwise the error the WAN check recorded last.
\<close>

lemma monitor_iteration_publishes:
  assumes "running (mon s)"
    and "0 < num_wan_servers (mon s)" and "num_wan_servers (mon s) \<le> int MAX_WAN_SERVERS"
  shows "\<exists>s'. monitor_iteration P E s = Some (True, s')
     \<and> wan_up (mon s') = (\<exists>i. int i < num_wan_servers (mon s) \<and> server_accepts E (mon s) i)
     \<and> lan_up (mon s') =
         (0 \<le> fst (sys_socket_lan E) \<and> 0 \<le> fst (lan_query P E (mon s))
          \<and> snd (snd (lan_query P E (mon s))) AND IFF_UP P \<noteq> 0
          \<and> snd (snd (lan_query P E (mon s))) AND IFF_RUNNING P \<noteq> 0)
     \<and> last_check_time (mon s') = sys_time E
     \<and> last_error (mon s') =
         (if fst (sys_socket_lan E) < 0 then snd (sys_socket_lan E)
          else if fst (lan_query P E (mon s)) < 0 then fst (snd (lan_query P E (mon s)))
          else if lan_up (mon s') \<or> wan_up (mon s') then 0
          else server_fail_code E (mon s) (nat (num_wan_servers (mon s)) - 1))"
proof -
  let ?s3 = "emit Unlock (rd F_check_interval_sec (rd F_running (emit Lock s)))"
  have n: "num_wan_servers (mon ?s3) \<le> int MAX_WAN_SERVERS" using assms(3) by simp
  from check_wan_from_spec [OF n, of E 0, unfolded mon_emit mon_rd] assms(2)
  obtain new_wan s4 where
    w: "check_wan E ?s3 = Some (new_wan, s4)"
    and b: "new_wan = (\<exists>i. int i < num_wan_servers (mon s) \<and> server_accepts E (mon s) i)"
    and e: "last_error (mon s4) =
       (if new_wan then 0 else server_fail_code E (mon s) (nat (num_wan_servers (mon s)) - 1))"
    by (auto simp: check_wan_def cong: if_cong)
  have fr: "only_last_error (mon s) (mon s4)"
    using check_wan_frame [OF w] by simp
  have q: "lan_query P E (mon s4) = lan_query P E (mon s)"
    using only_last_error_fields(6) [OF fr] by (simp add: lan_query_def)
  obtain new_lan s5 where l: "check_lan P E s4 = (new_lan, s5)" by (rule prod.exhaust)
  have lu: "new_lan =
         (0 \<le> fst (sys_socket_lan E) \<and> 0 \<le> fst (lan_query P E (mon s))
          \<and> snd (snd (lan_query P E (mon s))) AND IFF_UP P \<noteq> 0
          \<and> snd (snd (lan_query P E (mon s))) AND IFF_RUNNING P \<noteq> 0)"
    using l q by (auto simp: check_lan_def lan_query_def Let_def split: prod.splits if_splits)
  have le: "last_error (mon s5) =
         (if fst (sys_socket_lan E) < 0 then snd (sys_socket_lan E)
          else if fst (lan_query P E (mon s)) < 0 then fst (snd (lan_query P E (mon s)))
          else if new_lan then 0 else last_error (mon s4))"
    using l q by (auto simp: check_lan_def lan_query_def Let_def split: prod.splits if_splits)
  let ?s' = "emit (Sleep (check_interval_sec (mon s))) (emit Unlock
      (wr F_last_check_time (\<lambda>m. m\<lparr>last_check_time := sys_time E\<rparr>) (emit Time
        (wr F_lan_up (\<lambda>m. m\<lparr>lan_up := new_lan\<rparr>)
          (wr F_wan_up (\<lambda>m. m\<lparr>wan_up := new_wan\<rparr>) (emit Lock s5))))))"
  have "monitor_iteration P E s = Some (True, ?s')"
    using assms(1) w l by (simp add: monitor_iteration_def Let_def)
  moreover have "wan_up (mon ?s') = new_wan" "lan_up (mon ?s') = new_lan"
    "last_check_time (mon ?s') = sys_time E" "last_error (mon ?s') = last_error (mon s5)"
    by simp_all
  ultimately show ?thesis
    using b lu le e by (intro exI [of _ ?s']) (simp del: mon_emit mon_wr, auto)
qed

subsection \<open>The mutex\<close>

lemma check_lan_events:
  "\<exists>es. trace (snd (check_lan P E s)) = trace s @ Socket # es \<and> lock_free es"
  by (auto simp: check_lan_def Let_def split: prod.splits)

text \<open>
  In every pass of the loop, no socket creation, connect, ioctl or sleep happens while the
  mutex is held.
\<close>

lemma monitor_iteration_io_unlocked:
  assumes "monitor_iteration P E s = Some (b, s')"
  shows "\<exists>es. trace s' = trace s @ es \<and> io_unlocked False es"
proof (cases "running (mon s)")
  case False
  with assms show ?thesis by (auto simp: monitor_iteration_def Let_def)
next
  case True
  let ?s3 = "emit Unlock (rd F_check_interval_sec (rd F_running (emit Lock s)))"
  from assms True obtain new_wan s4 where w: "check_wan E ?s3 = Some (new_wan, s4)"
    by (auto simp: monitor_iteration_def Let_def split: option.splits)
  from check_wan_from_events [OF w [unfolded check_wan_def]] obtain es1 where
    e1: "trace s4 = trace s @ [Lock, Rd F_running, Rd F_check_interval_sec, Unlock]
           @ Rd F_num_wan_servers # es1" "lock_free es1"
    by auto
  from check_lan_events [of P E s4] obtain es2 where
    e2: "trace (snd (check_lan P E s4)) = trace s4 @ Socket # es2" "lock_free es2"
    by auto
  from assms True w have
    "trace s' = trace (snd (check_lan P E s4)) @
       [Lock, Wr F_wan_up, Wr F_lan_up, Time, Wr F_last_check_time, Unlock,
        Sleep (check_interval_sec (mon s))]"
    by (auto simp: monitor_iteration_def Let_def split: prod.splits)
  moreover define mid where "mid = Rd F_num_wan_servers # es1 @ Socket # es2"
  moreover define tail where "tail = [Lock, Wr F_wan_up, Wr F_lan_up, Time, Wr F_last_check_time, Unlock,
        Sleep (check_interval_sec (mon s))]"
  ultimately have t: "trace s' = trace s @
      ([Lock, Rd F_running, Rd F_check_interval_sec, Unlock] @ mid @ tail)"
    using e1 e2 by (simp add: mid_def)
  have lf: "lock_free mid"
    using e1(2) e2(2) by (simp add: mid_def)
  have "io_unlocked False tail"
    by (simp add: tail_def)
  then have "io_unlocked False ([Lock, Rd F_running, Rd F_check_interval_sec, Unlock] @ mid @ tail)"
    using io_unlocked_lock_free [OF lf, of tail] by simp
  with t show ?thesis by blast
qed

text \<open>
  Every pass on a running monitor reads \<open>num_wan_servers\<close> right after the mutex is
  released.
\<close>

lemma monitor_iteration_unlocked_read:
  assumes "monitor_iteration P E s = Some (b, s')" and "running (mon s)"
  shows "\<exists>es. trace s' = trace s @ es \<and> \<not> accesses_locked False es"
proof -
  let ?s3 = "emit Unlock (rd F_check_interval_sec (rd F_running (emit Lock s)))"
  from assms obtain new_wan s4 where w: "check_wan E ?s3 = Some (new_wan, s4)"
    by (auto simp: monitor_iteration_def Let_def split: option.splits)
  from check_wan_from_events [OF w [unfolded check_wan_def]] obtain es1 where
    e1: "trace s4 = trace s @ [Lock, Rd F_running, Rd F_check_interval_sec, Unlock]
           @ Rd F_num_wan_servers # es1"
    by auto
  from check_lan_events [of P E s4] obtain es2 where
    e2: "trace (snd (check_lan P E s4)) = trace s4 @ Socket # es2"
    by auto
  from assms w have
    "trace s' = trace (snd (check_lan P E s4)) @
       [Lock, Wr F_wan_up, Wr F_lan_up, Time, Wr F_last_check_time, Unlock,
        Sleep (check_interval_sec (mon s))]"
    by (auto simp: monitor_iteration_def Let_def split: prod.splits)
  with e1 e2 have "trace s' = trace s @
      ([Lock, Rd F_running, Rd F_check_interval_sec, Unlock, Rd F_num_wan_servers] @
       (es1 @ Socket # es2 @
       [Lock, Wr F_wan_up, Wr F_lan_up, Time, Wr F_last_check_time, Unlock,
        Sleep (check_interval_sec (mon s))]))"
    by simp
  moreover have "\<not> accesses_locked False
      ([Lock, Rd F_running, Rd F_check_interval_sec, Unlock, Rd F_num_wan_servers] @
       (es1 @ Socket # es2 @
       [Lock, Wr F_wan_up, Wr F_lan_up, Time, Wr F_last_check_time, Unlock,
        Sleep (check_interval_sec (mon s))]))"
    by simp
  ultimately show ?thesis by blast
qed

text \<open>
  A pass that finds \<open>running\<close> cleared ends the thread: it takes the mutex, reads the
  flag, releases the mutex, and writes no field.
\<close>

lemma monitor_thread_func_exits:
  "\<not> running (mon s) \<Longrightarrow>
   monitor_thread_func P (E # Es) s = Exited (emit Unlock (rd F_running (emit Lock s)))"
  by (simp add: monitor_iteration_def)

text \<open>
  Claim C4 says that every read and write of a field happens while the mutex is held, and
  that no network call or sleep happens while it is held. The first part fails for the
  background thread: in the pass below, in which the first connect succeeds, the thread
  releases the mutex after reading \<open>check_interval_sec\<close> and then, in \<open>check_wan\<close> and
  \<open>check_lan\<close>, reads \<open>num_wan_servers\<close>, \<open>timeout_ms\<close>, \<open>wan_servers\<close> and
  \<open>lan_interface\<close> and writes \<open>last_error\<close> without it. The second part holds in this
  pass.
\<close>

theorem monitor_iteration_accesses_unlocked:
  "\<exists>s'. monitor_iteration linux_platform (example_env (\<lambda>i r. True) 4163) (start example_monitor)
           = Some (True, s')
     \<and> trace s' =
         [Lock, Rd F_running, Rd F_check_interval_sec, Unlock,
          Rd F_num_wan_servers, Socket, Rd F_timeout_ms, Rd F_timeout_ms, Setsockopt, Setsockopt,
          Rd F_wan_servers, Rd F_wan_servers, InetPton 0, Connect 0 0, Close, Wr F_last_error,
          Socket, Rd F_lan_interface, Ioctl, Close, Wr F_last_error,
          Lock, Wr F_wan_up, Wr F_lan_up, Time, Wr F_last_check_time, Unlock, Sleep 2]
     \<and> \<not> accesses_locked False (trace s')
     \<and> io_unlocked False (trace s')"
  by (simp add: monitor_iteration_def check_wan_def check_wan_from_unfold [of _ 0]
      check_wan_server_def check_wan_retry.simps [of _ _ _ 0] check_lan_def
      example_monitor_fields example_monitor_servers MAX_WAN_SERVERS_def
      example_env_def linux_platform_def Let_def)

section \<open>Shutdown while a pass is under way\<close>

text \<open>
  A pass is its first half followed by its second half, and the destructor is its
  critical section followed by the grace period and the release.
\<close>

lemma monitor_iteration_split:
  "monitor_iteration P E s =
     (case monitor_pass_begin s of
        (None, s') \<Rightarrow> Some (False, s')
      | (Some interval, s3) \<Rightarrow> map_option (Pair True) (monitor_pass_rest P E interval s3))"
  by (simp add: monitor_iteration_def monitor_pass_begin_def monitor_pass_rest_def Let_def
      split: option.splits prod.splits)

lemma network_monitor_destroy_split:
  "network_monitor_destroy (Some s) =
     Some (emit Free (emit MutexDestroy (emit (Usleep 100000) (destroy_request s))))"
  by (simp add: network_monitor_destroy_def destroy_request_def)

lemma usleep_total_append [simp]:
  "usleep_total (xs @ ys) = usleep_total xs + usleep_total ys"
  by (induction xs rule: usleep_total.induct) simp_all

lemma example_lan_up:
  "check_lan linux_platform (example_env up 4163) s =
     (True, wr F_last_error (\<lambda>m. m\<lparr>last_error := 0\<rparr>)
        (emit Close (emit Ioctl (rd F_lan_interface (emit Socket s)))))"
  by (simp add: check_lan_def example_env_def linux_platform_def Let_def)

text \<open>
  Claim C3 says that after the destructor has cleared \<open>running\<close> and waited its grace
  period, the status fields change no more. The run below refutes it for the code. The
  thread tests \<open>running\<close> and releases the mutex (line 216); the destructor then clears
  the flag in its critical section and starts its grace period of 100000 microseconds.
  The second half of the pass never reads the flag again: with every connect refused it
  sleeps 2800000 microseconds in \<open>check_wan\<close> and only then runs \<open>check_lan\<close> and writes
  \<open>last_error\<close>, \<open>wan_up\<close>, \<open>lan_up\<close> and \<open>last_check_time\<close>, so \<open>lan_up\<close>,
  \<open>last_check_time\<close> and \<open>last_error\<close> change long after the grace period is over.
\<close>

theorem destroy_during_pass_mutates_status:
  "\<exists>s3 sd es s'.
       monitor_pass_begin (start example_monitor) = (Some 2, s3)
     \<and> network_monitor_destroy (Some s3) =
         Some (emit Free (emit MutexDestroy (emit (Usleep 100000) sd)))
     \<and> sd = destroy_request s3
     \<and> \<not> running (mon sd)
     \<and> monitor_pass_rest linux_platform (example_env (\<lambda>i r. False) 4163) 2 sd = Some s'
     \<and> trace s' = trace sd @ es @
         [Socket, Rd F_lan_interface, Ioctl, Close, Wr F_last_error,
          Lock, Wr F_wan_up, Wr F_lan_up, Time, Wr F_last_check_time, Unlock, Sleep 2]
     \<and> usleep_total es = 2800000
     \<and> lan_up (mon sd) = False \<and> lan_up (mon s') = True
     \<and> last_check_time (mon sd) = 0 \<and> last_check_time (mon s') = 1700000000
     \<and> last_error (mon sd) = 113 \<and> last_error (mon s') = 0"
proof -
  let ?E = "example_env (\<lambda>i r. False) 4163"
  let ?s3 = "emit Unlock (rd F_check_interval_sec (rd F_running (emit Lock (start example_monitor))))"
  let ?sd = "destroy_request ?s3"
  have b: "monitor_pass_begin (start example_monitor) = (Some 2, ?s3)"
    by (simp add: monitor_pass_begin_def Let_def example_monitor_fields)
  have d: "network_monitor_destroy (Some ?s3) =
      Some (emit Free (emit MutexDestroy (emit (Usleep 100000) ?sd)))"
    by (rule network_monitor_destroy_split)
  have msd: "mon ?sd = example_monitor\<lparr>running := False\<rparr>"
    by (simp add: destroy_request_def)
  have w: "\<exists>s4 es. check_wan ?E ?sd = Some (False, s4)
      \<and> trace s4 = trace ?sd @ es \<and> usleep_total es = 2800000
      \<and> mon s4 = (mon ?sd)\<lparr>last_error := 111\<rparr>"
    by (simp add: check_wan_def check_wan_from_unfold [of _ 0] check_wan_from_unfold [of _ "Suc 0"]
        check_wan_from_unfold [of _ "Suc (Suc 0)"] check_wan_from_unfold [of _ "Suc (Suc (Suc 0))"]
        check_wan_from_unfold [of _ "Suc (Suc (Suc (Suc 0)))"]
        check_wan_server_def check_wan_retry_unfold msd
        example_monitor_servers MAX_WAN_SERVERS_def example_env_def Let_def push_bit_eq_mult)
  then obtain s4 es where
    w4: "check_wan ?E ?sd = Some (False, s4)" "trace s4 = trace ?sd @ es"
      "usleep_total es = 2800000" "mon s4 = (mon ?sd)\<lparr>last_error := 111\<rparr>"
    by blast
  let ?s' = "emit (Sleep 2) (emit Unlock
      (wr F_last_check_time (\<lambda>m. m\<lparr>last_check_time := sys_time ?E\<rparr>) (emit Time
        (wr F_lan_up (\<lambda>m. m\<lparr>lan_up := True\<rparr>)
          (wr F_wan_up (\<lambda>m. m\<lparr>wan_up := False\<rparr>) (emit Lock
            (wr F_last_error (\<lambda>m. m\<lparr>last_error := 0\<rparr>)
              (emit Close (emit Ioctl (rd F_lan_interface (emit Socket s4)))))))))))"
  have r: "monitor_pass_rest linux_platform ?E 2 ?sd = Some ?s'"
    using w4(1) by (simp add: monitor_pass_rest_def example_lan_up)
  have t: "trace ?s' = trace ?sd @ es @
         [Socket, Rd F_lan_interface, Ioctl, Close, Wr F_last_error,
          Lock, Wr F_wan_up, Wr F_lan_up, Time, Wr F_last_check_time, Unlock, Sleep 2]"
    using w4(2) by simp
  have m: "lan_up (mon ?s') = True" "last_check_time (mon ?s') = 1700000000"
    "last_error (mon ?s') = 0"
    by (simp_all add: example_env_def)
  have m0: "\<not> running (mon ?sd)" "lan_up (mon ?sd) = False" "last_check_time (mon ?sd) = 0"
    "last_error (mon ?sd) = 113"
    unfolding msd by (simp_all add: example_monitor_def)
  from b d r t w4(3) m m0 show ?thesis
    by (intro exI [of _ ?s3] exI [of _ ?sd] exI [of _ es] exI [of _ ?s']) (simp only: simp_thms)
qed

section \<open>Invariants of the configuration\<close>

text \<open>
  Claim C8. On every live monitor, \<open>set_timeout_ms\<close> stores its argument when it is
  positive and 1000 otherwise, \<open>set_check_interval_sec\<close> its argument when it is positive
  and 5 otherwise, and after either call both the timeout and the interval are positive.
\<close>

theorem numeric_setters_clamp:
  assumes "reachable P (mon s)"
  shows "timeout_ms (mon (set_timeout_ms s ms)) = (if 0 < ms then ms else 1000)
       \<and> check_interval_sec (mon (set_check_interval_sec s sec)) = (if 0 < sec then sec else 5)
       \<and> config_valid (mon (set_timeout_ms s ms))
       \<and> config_valid (mon (set_check_interval_sec s sec))"
  using reachable_inv [OF assms]
  by (simp add: monitor_inv_def config_valid_def set_timeout_ms_def set_check_interval_sec_def)

text \<open>The calls with 0 and -5, on the monitor constructed with the defaults.\<close>

theorem numeric_setters_clamp_witness:
  "\<exists>s. network_monitor_new linux_platform (example_env (\<lambda>i r. False) 4163) None = Handle s
     \<and> timeout_ms (mon (set_timeout_ms s 0)) = 1000
     \<and> timeout_ms (mon (set_timeout_ms s (- 5))) = 1000
     \<and> check_interval_sec (mon (set_check_interval_sec s 0)) = 5
     \<and> config_valid (mon (set_timeout_ms s 0))
     \<and> config_valid (mon (set_timeout_ms s (- 5)))
     \<and> config_valid (mon (set_check_interval_sec s 0))"
proof -
  from example_new obtain s where
    s: "network_monitor_new linux_platform (example_env (\<lambda>i r. False) 4163) None = Handle s" ..
  have r: "reachable linux_platform (mon s)"
    using s by (rule reachable.r_new)
  show ?thesis
    using s numeric_setters_clamp [OF r, of 0 0] numeric_setters_clamp [OF r, of "- 5" 0]
    by (intro exI [of _ s]) simp
qed

text \<open>
  Claim C9. Every live monitor has \<open>num_wan_servers = 4\<close>, the size of the array, and
  holds the fixed defaults at the indices 1, 2 and 3; the setters of the WAN host and
  port change no entry but the one at index 0.
\<close>

theorem wan_server_list_invariant:
  assumes "reachable P m"
  shows "num_wan_servers m = int MAX_WAN_SERVERS
       \<and> wan_servers m 1 = \<lparr>host = ''1.1.1.1'', port = 53\<rparr>
       \<and> wan_servers m 2 = \<lparr>host = ''9.9.9.9'', port = 53\<rparr>
       \<and> wan_servers m 3 = \<lparr>host = ''208.67.222.222'', port = 53\<rparr>
       \<and> (\<forall>i. 0 < i \<longrightarrow> wan_servers (mon (set_wan_test_host (start m) h)) i = wan_servers m i)
       \<and> (\<forall>i. 0 < i \<longrightarrow> wan_servers (mon (set_wan_test_port (start m) p)) i = wan_servers m i)"
  using reachable_inv [OF assms]
  by (simp add: monitor_inv_def fixed_wan_defaults_def MAX_WAN_SERVERS_def
      set_wan_test_host_def set_wan_test_port_def)


text \<open>The monitor constructed with the defaults, after both setters changed entry 0.\<close>

theorem wan_server_list_invariant_witness:
  "\<exists>s. network_monitor_new linux_platform (example_env (\<lambda>i r. False) 4163) None = Handle s
     \<and> host (wan_servers (mon (set_wan_test_port
           (start (mon (set_wan_test_host (start (mon s)) (Some ''10.0.0.1'')))) 8080)) 0) = ''10.0.0.1''
     \<and> port (wan_servers (mon (set_wan_test_port
           (start (mon (set_wan_test_host (start (mon s)) (Some ''10.0.0.1'')))) 8080)) 0) = 8080
     \<and> num_wan_servers (mon (set_wan_test_port
           (start (mon (set_wan_test_host (start (mon s)) (Some ''10.0.0.1'')))) 8080)) = 4
     \<and> wan_servers (mon (set_wan_test_port
           (start (mon (set_wan_test_host (start (mon s)) (Some ''10.0.0.1'')))) 8080)) 1
         = \<lparr>host = ''1.1.1.1'', port = 53\<rparr>
     \<and> wan_servers (mon (set_wan_test_port
           (start (mon (set_wan_test_host (start (mon s)) (Some ''10.0.0.1'')))) 8080)) 2
         = \<lparr>host = ''9.9.9.9'', port = 53\<rparr>
     \<and> wan_servers (mon (set_wan_test_port
           (start (mon (set_wan_test_host (start (mon s)) (Some ''10.0.0.1'')))) 8080)) 3
         = \<lparr>host = ''208.67.222.222'', port = 53\<rparr>"
proof -
  from example_new obtain s where
    s: "network_monitor_new linux_platform (example_env (\<lambda>i r. False) 4163) None = Handle s" ..
  let ?m = "mon (set_wan_test_port
              (start (mon (set_wan_test_host (start (mon s)) (Some ''10.0.0.1'')))) 8080)"
  have r: "reachable linux_platform ?m"
    by (intro reachable.r_set_wan_test_port reachable.r_set_wan_test_host reachable.r_new) (rule s)
  have h: "host (wan_servers ?m 0) = ''10.0.0.1''" "port (wan_servers ?m 0) = 8080"
    by (simp_all add: set_wan_test_port_def set_wan_test_host_def strncpy_nul_def)
  show ?thesis
    using s h wan_server_list_invariant [OF r]
    by (intro exI [of _ s]) (simp add: MAX_WAN_SERVERS_def)
qed

section \<open>The string setters and the NULL pointer\<close>

text \<open>
  Claim C10. A NULL argument makes a string setter store a fixed default: \<open>set_proxy\<close>
  the empty string, \<open>set_wan_test_host\<close> the host 8.8.8.8 in entry 0, and
  \<open>set_lan_interface\<close> the name eth0, whatever the field held before. The name eth0 has
  to fit the interface buffer of \<open>IF_NAMESIZE\<close> bytes.
\<close>

theorem null_string_setters:
  assumes "5 \<le> IF_NAMESIZE P"
  shows "proxy_url (mon (set_proxy s None)) = []
       \<and> host (wan_servers (mon (set_wan_test_host s None)) 0) = ''8.8.8.8''
       \<and> lan_interface (mon (set_lan_interface P s None)) = ''eth0''"
  using assms
  by (simp add: set_proxy_def set_wan_test_host_def set_lan_interface_def strncpy_nul_def)

theorem null_string_setters_witness:
  "5 \<le> IF_NAMESIZE linux_platform
   \<and> proxy_url example_monitor \<noteq> []
   \<and> lan_interface example_monitor = ''wlan0''
   \<and> proxy_url (mon (set_proxy (start example_monitor) None)) = []
   \<and> host (wan_servers (mon (set_wan_test_host (start example_monitor) None)) 0) = ''8.8.8.8''
   \<and> lan_interface (mon (set_lan_interface linux_platform (start example_monitor) None)) = ''eth0''"
proof -
  have h: "5 \<le> IF_NAMESIZE linux_platform"
    by (simp add: linux_platform_def)
  show ?thesis
    using h null_string_setters [OF h, of "start example_monitor"]
    by (simp add: example_monitor_def)
qed

end
